theory Spec2Isabelle
  imports Complex_Main "HOL-Library.Multiset"
begin

section \<open>JavaScript numbers\<close>

text \<open>
  A JavaScript number is an IEEE 754 double: a finite value \<open>m * 2 ^ e\<close>, an infinity, or
  NaN. A finite value is held by its mantissa and exponent as the format stores them: a
  normal number has \<open>2 ^ 52 \<le> \<bar>m\<bar> < 2 ^ 53\<close> and \<open>- 1074 \<le> e \<le> 971\<close>, a subnormal number
  and zero have \<open>\<bar>m\<bar> < 2 ^ 52\<close> and \<open>e = - 1074\<close>; so two finite doubles are the same number
  exactly when they are the same pair. The two zeros, which \<^verbatim>\<open>===\<close> does not tell apart,
  are one value. A field of type \<^verbatim>\<open>number\<close> can also hold \<^verbatim>\<open>null\<close>, which is what
  \<^verbatim>\<open>JSON.parse\<close> reads where \<^verbatim>\<open>JSON.stringify\<close> wrote a NaN or an infinity.
\<close>

datatype number = Finite int int | PosInfinity | NegInfinity | NaN | Null

instantiation number :: "{zero, one}"
begin

definition zero_number :: number where
  "zero_number = Finite 0 (- 1074)"

definition one_number :: number where
  "one_number = Finite 4503599627370496 (- 52)"

instance ..

end

definition minus_one :: number where
  "minus_one = Finite (- 4503599627370496) (- 52)"

text \<open>The number of binary digits of a positive integer.\<close>

function bit_length :: "int \<Rightarrow> int" where
  "bit_length n = (if n \<le> 0 then 0 else 1 + bit_length (n div 2))"
  by pat_completeness auto
termination
  by (relation "measure nat") auto

declare bit_length.simps [simp del]

definition signed_infinity :: "bool \<Rightarrow> number" where
  "signed_infinity negative = (if negative then NegInfinity else PosInfinity)"

text \<open>
  The double nearest to \<open>M * 2 ^ E\<close> for \<open>M \<ge> 0\<close>, with the sign given apart: rounding to
  nearest, ties to the even mantissa, as every arithmetic operation of JavaScript rounds.
  \<open>t\<close> is the exponent of the result: the one that leaves 53 binary digits of \<open>M\<close>, and
  at least - 1074; a result of \<open>2 ^ 1024\<close> or more is an infinity.
\<close>

definition round_to_double :: "bool \<Rightarrow> int \<Rightarrow> int \<Rightarrow> number" where
  "round_to_double negative M E =
     (if M = 0 then 0
      else
        let t = max (E + bit_length M - 53) (- 1074);
            q = (if t \<le> E then M * 2 ^ nat (E - t)
                 else let half = 2 ^ nat (t - E - 1);
                          q0 = M div (2 * half);
                          r = M mod (2 * half)
                      in if half < r \<or> (r = half \<and> odd q0) then q0 + 1 else q0);
            q' = (if q = 2 ^ 53 then 2 ^ 52 else q);
            t' = (if q = 2 ^ 53 then t + 1 else t)
        in if 971 < t' then signed_infinity negative
           else Finite (if negative then - q' else q') t')"

text \<open>\<^verbatim>\<open>ToNumber\<close> on the value of a number field: \<^verbatim>\<open>null\<close> is 0.\<close>

definition to_double :: "number \<Rightarrow> number" where
  "to_double x = (case x of Null \<Rightarrow> 0 | _ \<Rightarrow> x)"

text \<open>The number that a count is.\<close>

definition of_nat_number :: "nat \<Rightarrow> number" where
  "of_nat_number n = round_to_double False (int n) 0"

definition is_nan :: "number \<Rightarrow> bool" where
  "is_nan x = (x = NaN)"

definition is_infinite :: "number \<Rightarrow> bool" where
  "is_infinite x = (x = PosInfinity \<or> x = NegInfinity)"

definition is_negative :: "number \<Rightarrow> bool" where
  "is_negative x = (case x of Finite m e \<Rightarrow> m < 0 | NegInfinity \<Rightarrow> True | _ \<Rightarrow> False)"

definition is_zero :: "number \<Rightarrow> bool" where
  "is_zero x = (case x of Finite m e \<Rightarrow> m = 0 | _ \<Rightarrow> False)"

definition mantissa :: "number \<Rightarrow> int" where
  "mantissa x = (case x of Finite m e \<Rightarrow> m | _ \<Rightarrow> 0)"

definition exponent :: "number \<Rightarrow> int" where
  "exponent x = (case x of Finite m e \<Rightarrow> e | _ \<Rightarrow> 0)"

text \<open>\<^verbatim>\<open>x + y\<close> on doubles: the exact sum of two finite values, rounded.\<close>

definition add_doubles :: "number \<Rightarrow> number \<Rightarrow> number" where
  "add_doubles x y =
     (if is_nan x \<or> is_nan y then NaN
      else if is_infinite x then (if is_infinite y \<and> x \<noteq> y then NaN else x)
      else if is_infinite y then y
      else
        let e = min (exponent x) (exponent y);
            M = mantissa x * 2 ^ nat (exponent x - e) + mantissa y * 2 ^ nat (exponent y - e)
        in round_to_double (M < 0) \<bar>M\<bar> e)"

definition fadd :: "number \<Rightarrow> number \<Rightarrow> number" where
  "fadd x y = add_doubles (to_double x) (to_double y)"

text \<open>\<^verbatim>\<open>x * y\<close> on doubles: the exact product of two finite values, rounded.\<close>

definition multiply_doubles :: "number \<Rightarrow> number \<Rightarrow> number" where
  "multiply_doubles x y =
     (if is_nan x \<or> is_nan y then NaN
      else if is_infinite x \<or> is_infinite y then
        (if is_zero x \<or> is_zero y then NaN
         else signed_infinity (is_negative x \<noteq> is_negative y))
      else round_to_double (is_negative x \<noteq> is_negative y)
             \<bar>mantissa x * mantissa y\<bar> (exponent x + exponent y))"

definition fmul :: "number \<Rightarrow> number \<Rightarrow> number" where
  "fmul x y = multiply_doubles (to_double x) (to_double y)"

text \<open>
  \<^verbatim>\<open>x / y\<close> on doubles. The quotient of two finite values is taken to \<open>k\<close> more binary
  digits than the 53 of the result, which leaves at least three digits to round on, and
  the last digit of \<open>2 * Q + 1\<close> records a remainder that is not 0. A zero divisor is the
  positive zero (the divisors of this program are counts).
\<close>

definition divide_doubles :: "number \<Rightarrow> number \<Rightarrow> number" where
  "divide_doubles x y =
     (if is_nan x \<or> is_nan y then NaN
      else if is_infinite x then
        (if is_infinite y then NaN else signed_infinity (is_negative x \<noteq> is_negative y))
      else if is_infinite y then 0
      else if is_zero y then
        (if is_zero x then NaN else signed_infinity (is_negative x))
      else if is_zero x then 0
      else
        let a = \<bar>mantissa x\<bar>; b = \<bar>mantissa y\<bar>;
            k = nat (56 + bit_length b - bit_length a);
            Q = (a * 2 ^ k) div b;
            R = (a * 2 ^ k) mod b
        in round_to_double (is_negative x \<noteq> is_negative y)
             (2 * Q + (if R = 0 then 0 else 1)) (exponent x - exponent y - int k - 1))"

definition fdiv :: "number \<Rightarrow> number \<Rightarrow> number" where
  "fdiv x y = divide_doubles (to_double x) (to_double y)"

text \<open>
  The double that a decimal literal denotes: the one nearest to the fraction \<open>a / b\<close>, which
  is the rounded quotient of the two integers (\<^verbatim>\<open>0.8\<close> is \<open>decimal 8 10\<close>).
\<close>

definition decimal :: "nat \<Rightarrow> nat \<Rightarrow> number" where
  "decimal a b = fdiv (of_nat_number a) (of_nat_number b)"

text \<open>Truthiness of the value of a number field: 0, NaN and \<^verbatim>\<open>null\<close> are falsy.\<close>

definition truthy :: "number \<Rightarrow> bool" where
  "truthy x = (case x of Finite m e \<Rightarrow> m \<noteq> 0 | PosInfinity \<Rightarrow> True | NegInfinity \<Rightarrow> True
               | NaN \<Rightarrow> False | Null \<Rightarrow> False)"

text \<open>
  What \<^verbatim>\<open>JSON.stringify\<close> followed by \<^verbatim>\<open>JSON.parse\<close> makes of a number field: a finite
  number is written as the shortest decimal text that reads back as the same double, a
  NaN and an infinity are written as \<^verbatim>\<open>null\<close>.
\<close>

definition json_number :: "number \<Rightarrow> number" where
  "json_number x = (case x of Finite m e \<Rightarrow> x | _ \<Rightarrow> Null)"

section \<open>Decimal text\<close>

definition digit_char :: "nat \<Rightarrow> char" where
  "digit_char n = char_of (48 + n)"

definition is_digit :: "char \<Rightarrow> bool" where
  "is_digit c = ((48 :: nat) \<le> of_char c \<and> of_char c \<le> (57 :: nat))"

definition digit_val :: "char \<Rightarrow> nat" where
  "digit_val c = of_char c - 48"

text \<open>Decimal text of at least \<open>w\<close> digits, padded with zeros on the left.\<close>

fun show_digits :: "nat \<Rightarrow> nat \<Rightarrow> string" where
  "show_digits 0 n = (if n = 0 then [] else show_digits 0 (n div 10) @ [digit_char (n mod 10)])"
| "show_digits (Suc w) n = show_digits w (n div 10) @ [digit_char (n mod 10)]"

text \<open>
  The first equation of \<open>show_digits\<close> rewrites its own right-hand side; proofs use its
  conditional forms instead.
\<close>

declare show_digits.simps [simp del]

definition read_digits :: "string \<Rightarrow> nat" where
  "read_digits s = foldl (\<lambda>acc c. 10 * acc + digit_val c) 0 s"

section \<open>JavaScript objects used as dictionaries\<close>

text \<open>
  An object literal \<^verbatim>\<open>{}\<close> filled by assignment is the association list of its own
  properties, in the order in which \<^verbatim>\<open>Object.keys\<close>, \<^verbatim>\<open>Object.entries\<close> and
  \<^verbatim>\<open>Object.values\<close> enumerate them: the keys that are array indices (the canonical decimal
  text of an integer below \<open>2 ^ 32 - 1\<close>) first, in ascending order, then the other keys
  in the order of their creation.
\<close>

definition is_array_index :: "string \<Rightarrow> bool" where
  "is_array_index k =
     (k \<noteq> [] \<and> list_all is_digit k \<and> (k = ''0'' \<or> hd k \<noteq> CHR ''0'')
      \<and> read_digits k < 4294967295)"

text \<open>\<open>enumerated_before k k'\<close>: a new key \<open>k\<close> takes its place in front of the key \<open>k'\<close>.\<close>

definition enumerated_before :: "string \<Rightarrow> string \<Rightarrow> bool" where
  "enumerated_before k k' =
     (is_array_index k
      \<and> (if is_array_index k' then read_digits k < read_digits k' else True))"

fun obj_get :: "(string \<times> 'v) list \<Rightarrow> string \<Rightarrow> 'v option" where
  "obj_get [] k = None"
| "obj_get ((k', v) # kvs) k = (if k' = k then Some v else obj_get kvs k)"

fun obj_replace :: "(string \<times> 'v) list \<Rightarrow> string \<Rightarrow> 'v \<Rightarrow> (string \<times> 'v) list" where
  "obj_replace [] k v = []"
| "obj_replace ((k', v') # kvs) k v =
     (if k' = k then (k, v) # kvs else (k', v') # obj_replace kvs k v)"

fun obj_insert :: "(string \<times> 'v) list \<Rightarrow> string \<Rightarrow> 'v \<Rightarrow> (string \<times> 'v) list" where
  "obj_insert [] k v = [(k, v)]"
| "obj_insert ((k', v') # kvs) k v =
     (if enumerated_before k k' then (k, v) # (k', v') # kvs
      else (k', v') # obj_insert kvs k v)"

text \<open>
  Writing an own property: an existing key keeps its place, a new key is created.
\<close>

definition obj_set :: "(string \<times> 'v) list \<Rightarrow> string \<Rightarrow> 'v \<Rightarrow> (string \<times> 'v) list" where
  "obj_set kvs k v =
     (case obj_get kvs k of None \<Rightarrow> obj_insert kvs k v | Some _ \<Rightarrow> obj_replace kvs k v)"

text \<open>
  The dictionaries of counts are plain objects, so a key that the object does not own is
  read from \<^verbatim>\<open>Object.prototype\<close>. These are its properties that hold a function; its
  one other property is the accessor \<^verbatim>\<open>__proto__\<close>.
\<close>

definition prototype_functions :: "string list" where
  "prototype_functions =
     [''constructor'', ''__defineGetter__'', ''__defineSetter__'', ''hasOwnProperty'',
      ''__lookupGetter__'', ''__lookupSetter__'', ''isPrototypeOf'', ''propertyIsEnumerable'',
      ''toString'', ''valueOf'', ''toLocaleString'']"

definition object_prototype_keys :: "string list" where
  "object_prototype_keys = ''__proto__'' # prototype_functions"

text \<open>
  The value that a dictionary of counts holds under a key: a count, or the text that
  \<^verbatim>\<open>+\<close> makes when one operand is a function read from the prototype. Such a text is the
  source text of the function \<^verbatim>\<open>Object.prototype[name]\<close> (which the engine chooses, and
  which is no numeral), with the source texts and decimal numerals that were concatenated
  in front of it and behind it. A count is a natural number: the counts that arise are
  bounded by the lengths of arrays and stay in the range in which doubles hold every
  integer exactly.
\<close>

datatype text_piece = SourceOf string | Decimal nat

datatype tally_value = Count nat | Text "text_piece list" string "text_piece list"

type_synonym counts = "(string \<times> tally_value) list"

text \<open>
  \<^verbatim>\<open>counts[k]\<close>, where \<open>None\<close> is \<^verbatim>\<open>undefined\<close>: the own property, else the inherited
  function. (The key \<^verbatim>\<open>__proto__\<close> is dealt with in \<open>obj_add\<close>.)
\<close>

definition obj_lookup :: "counts \<Rightarrow> string \<Rightarrow> tally_value option" where
  "obj_lookup counts k =
     (case obj_get counts k of
        Some v \<Rightarrow> Some v
      | None \<Rightarrow> if k \<in> set prototype_functions then Some (Text [] k []) else None)"

text \<open>\<^verbatim>\<open>v || 0\<close>: \<^verbatim>\<open>undefined\<close> and the number 0 are falsy, a text that is not empty is truthy.\<close>

definition or_zero :: "tally_value option \<Rightarrow> tally_value" where
  "or_zero v = (case v of None \<Rightarrow> Count 0 | Some c \<Rightarrow> c)"

text \<open>\<^verbatim>\<open>a + b\<close>: the sum of two numbers, and the concatenation of the texts otherwise.\<close>

fun js_plus :: "tally_value \<Rightarrow> tally_value \<Rightarrow> tally_value" where
  "js_plus (Count a) (Count b) = Count (a + b)"
| "js_plus (Count a) (Text p f q) = Text (Decimal a # p) f q"
| "js_plus (Text p f q) (Count b) = Text p f (q @ [Decimal b])"
| "js_plus (Text p f q) (Text p' f' q') = Text p f (q @ p' @ SourceOf f' # q')"

text \<open>
  \<^verbatim>\<open>counts[k] = (counts[k] || 0) + n\<close> on an object that was created as \<^verbatim>\<open>{}\<close> and is
  written by this assignment only. Under the key \<^verbatim>\<open>__proto__\<close> it reads the prototype
  object and assigns a text through the inherited setter, which ignores a value that is
  neither an object nor \<^verbatim>\<open>null\<close>: the object is left as it is, without that key.
\<close>

definition obj_add :: "counts \<Rightarrow> string \<Rightarrow> tally_value \<Rightarrow> counts" where
  "obj_add counts k n =
     (if k = ''__proto__'' then counts
      else obj_set counts k (js_plus (or_zero (obj_lookup counts k)) n))"

text \<open>
  \<^verbatim>\<open>entries.sort(([,a], [,b]) => b - a)\<close>: a stable sort by the comparator, whose result
  is NaN, which \<^verbatim>\<open>sort\<close> takes as 0, when an operand is a text with the source of a
  function in it. \<open>sorts_after a b\<close> is \<^verbatim>\<open>b - a > 0\<close>. (When a text stands among counts
  that differ, the comparator is not consistent and ECMAScript leaves the order to the
  engine; the insertion below is then one of the orders allowed.)
\<close>

definition to_number :: "tally_value \<Rightarrow> nat option" where
  "to_number v = (case v of Count c \<Rightarrow> Some c | Text p f q \<Rightarrow> None)"

definition sorts_after :: "tally_value \<Rightarrow> tally_value \<Rightarrow> bool" where
  "sorts_after a b =
     (case to_number a of
        None \<Rightarrow> False
      | Some x \<Rightarrow> (case to_number b of None \<Rightarrow> False | Some y \<Rightarrow> x < y))"

fun insert_desc :: "string \<times> tally_value \<Rightarrow> counts \<Rightarrow> counts" where
  "insert_desc x [] = [x]"
| "insert_desc x (y # ys) =
     (if sorts_after (snd x) (snd y) then y # insert_desc x ys else x # y # ys)"

definition sort_desc :: "counts \<Rightarrow> counts" where
  "sort_desc entries = foldr insert_desc entries []"

fun findIndex :: "('a \<Rightarrow> bool) \<Rightarrow> 'a list \<Rightarrow> nat option" where
  "findIndex P [] = None"
| "findIndex P (x # xs) = (if P x then Some 0 else map_option Suc (findIndex P xs))"

text \<open>
  \<^verbatim>\<open>find\<close> returns a reference to the first matching element; a mutation of the object
  it returns is a mutation of that element of the array.
\<close>

fun update_first :: "('a \<Rightarrow> bool) \<Rightarrow> ('a \<Rightarrow> 'a) \<Rightarrow> 'a list \<Rightarrow> 'a list" where
  "update_first P f [] = []"
| "update_first P f (x # xs) = (if P x then f x # xs else x # update_first P f xs)"

section \<open>Data model (the interfaces of the types module)\<close>

text \<open>
  A JavaScript \<^verbatim>\<open>Date\<close> object holds a time value: an integral number of milliseconds
  since the epoch, or NaN (an "Invalid Date").
\<close>

datatype date = Instant int | InvalidDate

datatype message_type = User | AI

record top_emotion =
  te_emotion :: string
  te_score :: number
  te_category :: string
  te_intensity :: string

record emotion_analysis =
  primary_emotion :: string
  emotion_scores :: "(string \<times> number) list"
  confidence :: number
  category :: string
  intensity :: string
  top_emotions :: "top_emotion list option"

record detected_language_info =
  dl_language :: string
  dl_confidence :: number
  all_probabilities :: "(string \<times> number) list"

record processing_result =
  transcript :: string
  original_transcript :: "string option"
  transcript_confidence :: number
  language :: string
  language_name :: "string option"
  is_south_indian_language :: "bool option"
  sentiment :: string
  sentiment_confidence :: number
  sentiment_scores :: "(string \<times> number) list"
  processing_time :: number
  totalProcessingTime :: "number option"
  detected_language_info :: "detected_language_info option"
  sentiment_method :: "string option"
  emotions :: "emotion_analysis option"

text \<open>
  \<^verbatim>\<open>Message\<close> and \<^verbatim>\<open>Conversation\<close> are parametric in the representation of their
  date fields: \<^typ>\<open>date\<close> in memory, the JSON image of a date in local storage.
\<close>

record 'd message =
  msg_id :: string
  mtype :: message_type
  content :: string
  timestamp :: 'd
  audioUrl :: "string option"
  processingResult :: "processing_result option"
  isTyping :: "bool option"

record emotional_summary =
  dominantEmotion :: string
  averageSentiment :: number
  emotionDistribution :: counts

record 'd conversation =
  conv_id :: string
  title :: string
  messages :: "'d message list"
  createdAt :: 'd
  updatedAt :: 'd
  emotionalSummary :: "emotional_summary option"


text \<open>The argument of \<^verbatim>\<open>addMessage\<close>: \<^verbatim>\<open>Omit<Message, 'id' | 'timestamp'>\<close>.\<close>

record new_message =
  nm_type :: message_type
  nm_content :: string
  nm_audioUrl :: "string option"
  nm_processingResult :: "processing_result option"
  nm_isTyping :: "bool option"

text \<open>
  The argument of \<^verbatim>\<open>updateMessage\<close>: \<^verbatim>\<open>Partial<Message>\<close>. \<open>None\<close> is a key that is
  absent; for an optional field \<open>Some None\<close> is a key present with value \<^verbatim>\<open>undefined\<close>.
\<close>

record message_updates =
  u_id :: "string option"
  u_type :: "message_type option"
  u_content :: "string option"
  u_timestamp :: "date option"
  u_audioUrl :: "string option option"
  u_processingResult :: "processing_result option option"
  u_isTyping :: "bool option option"

section \<open>Strings: split and join\<close>

fun split_on :: "char \<Rightarrow> string \<Rightarrow> string list" where
  "split_on sep [] = [[]]"
| "split_on sep (c # cs) =
     (if c = sep then [] # split_on sep cs
      else (case split_on sep cs of
              [] \<Rightarrow> [[c]]
            | w # ws \<Rightarrow> (c # w) # ws))"

fun join_with :: "string \<Rightarrow> string list \<Rightarrow> string" where
  "join_with sep [] = []"
| "join_with sep [w] = w"
| "join_with sep (w # ws) = w @ sep @ join_with sep ws"

section \<open>Dates as ISO 8601 text\<close>

text \<open>
  \<^verbatim>\<open>JSON.stringify\<close> writes a date through \<^verbatim>\<open>Date.prototype.toJSON\<close>: the text of
  \<^verbatim>\<open>toISOString\<close> (\<^verbatim>\<open>YYYY-MM-DDTHH:mm:ss.sssZ\<close>, or a signed year of six digits outside
  0..9999), and \<^verbatim>\<open>null\<close> for an invalid date. \<^verbatim>\<open>new Date(text)\<close> reads it back.
  The calendar follows the definitions of ECMA-262 (Day, DayFromYear, YearFromTime,
  MonthFromTime, DateFromTime, MakeDay). A time value of JavaScript lies within
  8.64e15 ms of the epoch, where six digits hold the year; the model does not bound the
  time value and lets a signed year take more digits beyond that range. A text that is not
  of this format reads as an invalid date.
\<close>

definition msPerDay :: int where
  "msPerDay = 86400000"

definition DayFromYear :: "int \<Rightarrow> int" where
  "DayFromYear y =
     365 * (y - 1970) + (y - 1969) div 4 - (y - 1901) div 100 + (y - 1601) div 400"

definition InLeapYear :: "int \<Rightarrow> bool" where
  "InLeapYear y = (DayFromYear (y + 1) - DayFromYear y = 366)"

text \<open>The year of a day number: the largest \<open>y\<close> with \<open>DayFromYear y \<le> d\<close>.\<close>

definition YearFromDay :: "int \<Rightarrow> int" where
  "YearFromDay d =
     (let y0 = 1970 + (400 * d) div 146097
      in if DayFromYear (y0 + 1) \<le> d then y0 + 1
         else if d < DayFromYear y0 then y0 - 1
         else y0)"

text \<open>The day within the year on which month \<open>m\<close> (1..12) starts.\<close>

definition MonthStart :: "bool \<Rightarrow> int \<Rightarrow> int" where
  "MonthStart leap m =
     (let l = (if leap then 1 else 0) in
      if m \<le> 1 then 0
      else if m = 2 then 31
      else if m = 3 then 59 + l
      else if m = 4 then 90 + l
      else if m = 5 then 120 + l
      else if m = 6 then 151 + l
      else if m = 7 then 181 + l
      else if m = 8 then 212 + l
      else if m = 9 then 243 + l
      else if m = 10 then 273 + l
      else if m = 11 then 304 + l
      else 334 + l)"

definition MonthFromDay :: "bool \<Rightarrow> int \<Rightarrow> int" where
  "MonthFromDay leap doy =
     (if doy < MonthStart leap 2 then 1
      else if doy < MonthStart leap 3 then 2
      else if doy < MonthStart leap 4 then 3
      else if doy < MonthStart leap 5 then 4
      else if doy < MonthStart leap 6 then 5
      else if doy < MonthStart leap 7 then 6
      else if doy < MonthStart leap 8 then 7
      else if doy < MonthStart leap 9 then 8
      else if doy < MonthStart leap 10 then 9
      else if doy < MonthStart leap 11 then 10
      else if doy < MonthStart leap 12 then 11
      else 12)"

definition MakeDay :: "int \<Rightarrow> int \<Rightarrow> int \<Rightarrow> int" where
  "MakeDay y m dt = DayFromYear y + MonthStart (InLeapYear y) m + dt - 1"

definition toISOString :: "int \<Rightarrow> string" where
  "toISOString t =
     (let d = t div msPerDay;
          tod = nat (t mod msPerDay);
          y = YearFromDay d;
          doy = d - DayFromYear y;
          m = MonthFromDay (InLeapYear y) doy;
          dt = doy - MonthStart (InLeapYear y) m + 1;
          year = (if 0 \<le> y \<and> y \<le> 9999 then show_digits 4 (nat y)
                  else (if 0 \<le> y then CHR ''+'' else CHR ''-'') # show_digits 6 (nat \<bar>y\<bar>))
      in year @ ''-'' @ show_digits 2 (nat m) @ ''-'' @ show_digits 2 (nat dt) @ ''T''
           @ show_digits 2 (tod div 3600000) @ '':''
           @ show_digits 2 (tod div 60000 mod 60) @ '':''
           @ show_digits 2 (tod div 1000 mod 60) @ ''.''
           @ show_digits 3 (tod mod 1000) @ ''Z'')"

text \<open>
  Reading one field: the leading digits, which must be \<open>w\<close> many (or at least \<open>w\<close> when
  \<open>exact\<close> is unset), followed by the separator \<open>sep\<close>.
\<close>

definition read_field :: "bool \<Rightarrow> nat \<Rightarrow> char \<Rightarrow> string \<Rightarrow> (nat \<times> string) option" where
  "read_field exact w sep s =
     (let ds = takeWhile is_digit s; rest = dropWhile is_digit s
      in if (if exact then length ds = w else w \<le> length ds)
         then (case rest of
                 [] \<Rightarrow> None
               | c # rest' \<Rightarrow> if c = sep then Some (read_digits ds, rest') else None)
         else None)"

definition parse_year :: "string \<Rightarrow> (int \<times> string) option" where
  "parse_year s =
     (case s of
        [] \<Rightarrow> None
      | c # cs \<Rightarrow>
          if c = CHR ''+'' then map_option (\<lambda>(n, r). (int n, r)) (read_field False 6 CHR ''-'' cs)
          else if c = CHR ''-'' then map_option (\<lambda>(n, r). (- int n, r)) (read_field False 6 CHR ''-'' cs)
          else map_option (\<lambda>(n, r). (int n, r)) (read_field True 4 CHR ''-'' s))"

definition parseISO :: "string \<Rightarrow> int option" where
  "parseISO s =
     Option.bind (parse_year s) (\<lambda>(y, s1).
     Option.bind (read_field True 2 CHR ''-'' s1) (\<lambda>(m, s2).
     Option.bind (read_field True 2 CHR ''T'' s2) (\<lambda>(dt, s3).
     Option.bind (read_field True 2 CHR '':'' s3) (\<lambda>(hh, s4).
     Option.bind (read_field True 2 CHR '':'' s4) (\<lambda>(mm, s5).
     Option.bind (read_field True 2 CHR ''.'' s5) (\<lambda>(ss, s6).
     Option.bind (read_field True 3 CHR ''Z'' s6) (\<lambda>(ms, s7).
       if s7 = [] \<and> 1 \<le> m \<and> m \<le> 12 \<and> 1 \<le> dt \<and> dt \<le> 31
          \<and> hh \<le> 23 \<and> mm \<le> 59 \<and> ss \<le> 59
       then Some (MakeDay y (int m) (int dt) * msPerDay
                  + int (hh * 3600000 + mm * 60000 + ss * 1000 + ms))
       else None)))))))"

text \<open>The JSON image of a date field: a string, or \<^verbatim>\<open>null\<close>.\<close>

type_synonym json_date = "string option"

fun toJSON :: "date \<Rightarrow> json_date" where
  "toJSON (Instant t) = Some (toISOString t)"
| "toJSON InvalidDate = None"

text \<open>\<^verbatim>\<open>new Date(v)\<close> for a parsed JSON value \<open>v\<close>: \<^verbatim>\<open>new Date(null)\<close> is the epoch.\<close>

fun newDate :: "json_date \<Rightarrow> date" where
  "newDate None = Instant 0"
| "newDate (Some s) = (case parseISO s of None \<Rightarrow> InvalidDate | Some t \<Rightarrow> Instant t)"

section \<open>Persistence layer\<close>

text \<open>
  The one key of \<^verbatim>\<open>localStorage\<close> the manager uses, \<^verbatim>\<open>'conversations'\<close>. Its text is
  represented by the JSON document it denotes: a list of conversations with dates as
  JSON values and numbers as JSON reads them back, the empty string, or any other text (on
  which \<^verbatim>\<open>JSON.parse\<close> or the
  mapping over the parsed value throws). \<open>quotaExceeded\<close> is the state
  of the store in which \<^verbatim>\<open>setItem\<close> throws.
\<close>

datatype stored = Conversations "json_date conversation list" | EmptyString | Malformed

record local_storage =
  item_conversations :: "stored option"
  quotaExceeded :: bool

record manager =
  conversations :: "date conversation list"
  currentConversationId :: "string option"
  localStorage :: local_storage

datatype error = NoActiveConversation

text \<open>
  \<^verbatim>\<open>JSON.stringify\<close> followed by \<^verbatim>\<open>JSON.parse\<close> on the objects that hold numbers:
  every number field by \<open>json_number\<close>, every other field as it is. (A text is written
  with its escapes and read back as the same text; a key whose value is \<^verbatim>\<open>undefined\<close> is
  not written, and reads as \<^verbatim>\<open>undefined\<close>; the keys of an object are written and
  created again in the order of their enumeration.)
\<close>

definition json_scores :: "(string \<times> number) list \<Rightarrow> (string \<times> number) list" where
  "json_scores scores = map (\<lambda>(k, v). (k, json_number v)) scores"

definition json_top_emotion :: "top_emotion \<Rightarrow> top_emotion" where
  "json_top_emotion t = t\<lparr>te_score := json_number (te_score t)\<rparr>"

definition json_emotions :: "emotion_analysis \<Rightarrow> emotion_analysis" where
  "json_emotions e =
     e\<lparr>emotion_scores := json_scores (emotion_scores e),
       confidence := json_number (confidence e),
       top_emotions := map_option (map json_top_emotion) (top_emotions e)\<rparr>"

definition json_language_info :: "detected_language_info \<Rightarrow> detected_language_info" where
  "json_language_info d =
     d\<lparr>dl_confidence := json_number (dl_confidence d),
       all_probabilities := json_scores (all_probabilities d)\<rparr>"

definition json_result :: "processing_result \<Rightarrow> processing_result" where
  "json_result r =
     r\<lparr>transcript_confidence := json_number (transcript_confidence r),
       sentiment_confidence := json_number (sentiment_confidence r),
       sentiment_scores := json_scores (sentiment_scores r),
       processing_time := json_number (processing_time r),
       totalProcessingTime := map_option json_number (totalProcessingTime r),
       detected_language_info := map_option json_language_info (detected_language_info r),
       emotions := map_option json_emotions (emotions r)\<rparr>"

definition json_summary :: "emotional_summary \<Rightarrow> emotional_summary" where
  "json_summary sm = sm\<lparr>averageSentiment := json_number (averageSentiment sm)\<rparr>"

text \<open>
  \<^verbatim>\<open>JSON.stringify\<close> of a message and of a conversation: dates by \<open>toJSON\<close>, numbers as
  above.
\<close>

definition stringify_message :: "date message \<Rightarrow> json_date message" where
  "stringify_message msg =
     \<lparr>msg_id = msg_id msg, mtype = mtype msg, content = content msg,
      timestamp = toJSON (timestamp msg), audioUrl = audioUrl msg,
      processingResult = map_option json_result (processingResult msg),
      isTyping = isTyping msg\<rparr>"

definition stringify_conversation :: "date conversation \<Rightarrow> json_date conversation" where
  "stringify_conversation conv =
     \<lparr>conv_id = conv_id conv, title = title conv,
      messages = map stringify_message (messages conv),
      createdAt = toJSON (createdAt conv), updatedAt = toJSON (updatedAt conv),
      emotionalSummary = map_option json_summary (emotionalSummary conv)\<rparr>"

text \<open>The two object spreads of \<^verbatim>\<open>loadConversations\<close>.\<close>

definition revive_message :: "json_date message \<Rightarrow> date message" where
  "revive_message msg =
     \<lparr>msg_id = msg_id msg, mtype = mtype msg, content = content msg,
      timestamp = newDate (timestamp msg), audioUrl = audioUrl msg,
      processingResult = processingResult msg, isTyping = isTyping msg\<rparr>"

definition revive_conversation :: "json_date conversation \<Rightarrow> date conversation" where
  "revive_conversation conv =
     \<lparr>conv_id = conv_id conv, title = title conv,
      messages = map revive_message (messages conv),
      createdAt = newDate (createdAt conv), updatedAt = newDate (updatedAt conv),
      emotionalSummary = emotionalSummary conv\<rparr>"

definition loadConversations :: "manager \<Rightarrow> manager" where
  "loadConversations s =
     (case item_conversations (localStorage s) of
        None \<Rightarrow> s
      | Some EmptyString \<Rightarrow> s
      | Some Malformed \<Rightarrow> s\<lparr>conversations := []\<rparr>
      | Some (Conversations saved) \<Rightarrow> s\<lparr>conversations := map revive_conversation saved\<rparr>)"

definition saveConversations :: "manager \<Rightarrow> manager" where
  "saveConversations s =
     (if quotaExceeded (localStorage s) then s
      else s\<lparr>localStorage := (localStorage s)
             \<lparr>item_conversations :=
                Some (Conversations (map stringify_conversation (conversations s)))\<rparr>\<rparr>)"

text \<open>The constructor: an empty list, no current conversation, then \<open>loadConversations\<close>.\<close>

definition new_manager :: "local_storage \<Rightarrow> manager" where
  "new_manager store =
     loadConversations \<lparr>conversations = [], currentConversationId = None, localStorage = store\<rparr>"

section \<open>Emotional summarizer\<close>

text \<open>
  The body of the \<^verbatim>\<open>forEach\<close> of \<^verbatim>\<open>updateEmotionalSummary\<close>, on the triple
  \<open>(emotionCounts, totalSentiment, sentimentCount)\<close>. The second test is one of truthiness:
  a \<^verbatim>\<open>sentiment_confidence\<close> of 0 does not pass. The sum and the product are those of
  doubles.
\<close>

definition sentimentValue :: "string \<Rightarrow> number" where
  "sentimentValue label =
     (if label = ''positive'' then 1 else if label = ''negative'' then minus_one else 0)"

definition summary_step ::
  "counts \<times> number \<times> nat \<Rightarrow> 'd message
     \<Rightarrow> counts \<times> number \<times> nat" where
  "summary_step acc msg =
     (case acc of (emotionCounts, totalSentiment, sentimentCount) \<Rightarrow>
        let emotionCounts' =
              (case processingResult msg of
                 None \<Rightarrow> emotionCounts
               | Some r \<Rightarrow>
                   (case emotions r of
                      None \<Rightarrow> emotionCounts
                    | Some e \<Rightarrow> obj_add emotionCounts (primary_emotion e) (Count 1)))
        in (case processingResult msg of
              None \<Rightarrow> (emotionCounts', totalSentiment, sentimentCount)
            | Some r \<Rightarrow>
                if truthy (sentiment_confidence r)
                then (emotionCounts',
                      fadd totalSentiment
                        (fmul (sentimentValue (sentiment r)) (sentiment_confidence r)),
                      sentimentCount + 1)
                else (emotionCounts', totalSentiment, sentimentCount)))"

definition updateEmotionalSummary :: "'d conversation \<Rightarrow> 'd conversation" where
  "updateEmotionalSummary conversation =
     (case foldl summary_step ([], 0, 0) (messages conversation) of
        (emotionCounts, totalSentiment, sentimentCount) \<Rightarrow>
          if length (map fst emotionCounts) > 0
          then conversation\<lparr>emotionalSummary := Some
                 \<lparr>dominantEmotion = fst (hd (sort_desc emotionCounts)),
                  averageSentiment =
                    (if sentimentCount > 0
                     then fdiv totalSentiment (of_nat_number sentimentCount) else 0),
                  emotionDistribution = emotionCounts\<rparr>\<rparr>
          else conversation)"

section \<open>Conversation store\<close>

definition generateTitle :: "string \<Rightarrow> string" where
  "generateTitle c =
     (let words = take 6 (split_on CHR '' '' c)
      in join_with '' '' words @ (if length (split_on CHR '' '' c) > 6 then ''...'' else []))"

definition getCurrentConversation :: "manager \<Rightarrow> date conversation option" where
  "getCurrentConversation s =
     (case currentConversationId s of
        None \<Rightarrow> None
      | Some i \<Rightarrow> if i = [] then None else find (\<lambda>c. conv_id c = i) (conversations s))"

text \<open>
  Writing back the conversation object that \<open>getCurrentConversation\<close> returned, after the
  caller mutated it: it is the first element of the list with its id.
\<close>

definition store_current :: "date conversation \<Rightarrow> manager \<Rightarrow> manager" where
  "store_current conv s =
     s\<lparr>conversations := update_first (\<lambda>c. conv_id c = conv_id conv) (\<lambda>_. conv) (conversations s)\<rparr>"

text \<open>
  \<open>newId\<close> is the value of \<^verbatim>\<open>generateId()\<close>, \<open>localeDate\<close> that of
  \<^verbatim>\<open>new Date().toLocaleDateString()\<close>, \<open>t1\<close> and \<open>t2\<close> the clock at the two
  \<^verbatim>\<open>new Date()\<close>. An absent or empty title gives the default one.
\<close>

definition createConversation ::
  "string option \<Rightarrow> string \<Rightarrow> string \<Rightarrow> int \<Rightarrow> int \<Rightarrow> manager \<Rightarrow> date conversation \<times> manager" where
  "createConversation ttl newId localeDate t1 t2 s =
     (let conversation =
            \<lparr>conv_id = newId,
             title = (case ttl of
                        None \<Rightarrow> ''Conversation '' @ localeDate
                      | Some t \<Rightarrow> if t = [] then ''Conversation '' @ localeDate else t),
             messages = [], createdAt = Instant t1, updatedAt = Instant t2,
             emotionalSummary = None\<rparr>
      in (conversation,
          saveConversations (s\<lparr>conversations := conversation # conversations s,
                               currentConversationId := Some (conv_id conversation)\<rparr>)))"

definition setCurrentConversation :: "string \<Rightarrow> manager \<Rightarrow> manager" where
  "setCurrentConversation i s = s\<lparr>currentConversationId := Some i\<rparr>"

text \<open>
  The mutations \<^verbatim>\<open>addMessage\<close> makes to the current conversation object: the push,
  the new \<^verbatim>\<open>updatedAt\<close>, the title on a first message of type user, the summary.
\<close>

definition push_message ::
  "new_message \<Rightarrow> date message \<Rightarrow> int \<Rightarrow> date conversation \<Rightarrow> date conversation" where
  "push_message m newMessage t2 conversation =
     (let c1 = conversation\<lparr>messages := messages conversation @ [newMessage],
                             updatedAt := Instant t2\<rparr>;
          c2 = (if length (messages c1) = 1 \<and> nm_type m = User
                then c1\<lparr>title := generateTitle (nm_content m)\<rparr> else c1)
      in updateEmotionalSummary c2)"

definition addMessage ::
  "string \<Rightarrow> int \<Rightarrow> int \<Rightarrow> new_message \<Rightarrow> manager \<Rightarrow> (error + date message) \<times> manager" where
  "addMessage newId t1 t2 m s =
     (case getCurrentConversation s of
        None \<Rightarrow> (Inl NoActiveConversation, s)
      | Some conversation \<Rightarrow>
          let newMessage =
                \<lparr>msg_id = newId, mtype = nm_type m, content = nm_content m,
                 timestamp = Instant t1, audioUrl = nm_audioUrl m,
                 processingResult = nm_processingResult m, isTyping = nm_isTyping m\<rparr>
          in (Inr newMessage,
              saveConversations (store_current (push_message m newMessage t2 conversation) s)))"

text \<open>The spread \<^verbatim>\<open>{...message, ...updates}\<close>: a key of \<open>updates\<close> overrides.\<close>

definition merge_message :: "date message \<Rightarrow> message_updates \<Rightarrow> date message" where
  "merge_message msg u =
     \<lparr>msg_id = (case u_id u of None \<Rightarrow> msg_id msg | Some v \<Rightarrow> v),
      mtype = (case u_type u of None \<Rightarrow> mtype msg | Some v \<Rightarrow> v),
      content = (case u_content u of None \<Rightarrow> content msg | Some v \<Rightarrow> v),
      timestamp = (case u_timestamp u of None \<Rightarrow> timestamp msg | Some v \<Rightarrow> v),
      audioUrl = (case u_audioUrl u of None \<Rightarrow> audioUrl msg | Some v \<Rightarrow> v),
      processingResult =
        (case u_processingResult u of None \<Rightarrow> processingResult msg | Some v \<Rightarrow> v),
      isTyping = (case u_isTyping u of None \<Rightarrow> isTyping msg | Some v \<Rightarrow> v)\<rparr>"

definition updateMessage :: "string \<Rightarrow> message_updates \<Rightarrow> int \<Rightarrow> manager \<Rightarrow> manager" where
  "updateMessage messageId updates t s =
     (case getCurrentConversation s of
        None \<Rightarrow> s
      | Some conversation \<Rightarrow>
          (case findIndex (\<lambda>m. msg_id m = messageId) (messages conversation) of
             None \<Rightarrow> s
           | Some messageIndex \<Rightarrow>
               let c1 = conversation\<lparr>messages := (messages conversation)
                          [messageIndex := merge_message (messages conversation ! messageIndex) updates],
                        updatedAt := Instant t\<rparr>
               in saveConversations (store_current c1 s)))"

definition getConversations :: "manager \<Rightarrow> date conversation list" where
  "getConversations s = conversations s"

definition deleteConversation :: "string \<Rightarrow> manager \<Rightarrow> manager" where
  "deleteConversation i s =
     saveConversations
       (s\<lparr>conversations := filter (\<lambda>c. conv_id c \<noteq> i) (conversations s),
          currentConversationId :=
            (if currentConversationId s = Some i then None else currentConversationId s)\<rparr>)"

section \<open>Daily insights\<close>









section \<open>Metrics batcher\<close>

record metric =
  metric_name :: string
  metric_value :: number
  dimensions :: "(string \<times> string) list option"
  metric_timestamp :: date

text \<open>
  \<open>inFlight\<close> holds the batches that \<^verbatim>\<open>flushMetrics\<close> has taken off the queue and
  handed to \<^verbatim>\<open>fetch\<close>, whose promise has not settled yet.
\<close>

record cloudwatch =
  metricsQueue :: "metric list"
  isProduction :: bool
  inFlight :: "metric list list"

definition batchSize :: nat where
  "batchSize = 10"

text \<open>
  \<^verbatim>\<open>flushMetrics\<close> up to its first \<^verbatim>\<open>await\<close>, which is what runs when it is called:
  \<^verbatim>\<open>splice(0, batchSize)\<close> and the start of the request.
\<close>

definition flushMetrics :: "cloudwatch \<Rightarrow> cloudwatch" where
  "flushMetrics s =
     (if length (metricsQueue s) = 0 \<or> \<not> isProduction s then s
      else s\<lparr>metricsQueue := drop batchSize (metricsQueue s),
             inFlight := inFlight s @ [take batchSize (metricsQueue s)]\<rparr>)"

text \<open>
  The rest of \<^verbatim>\<open>flushMetrics\<close>, when the request of the \<open>k\<close>-th batch in flight
  settles: a failed batch goes back to the front of a queue shorter than 100.
\<close>

definition flushSettled :: "nat \<Rightarrow> bool \<Rightarrow> cloudwatch \<Rightarrow> cloudwatch" where
  "flushSettled k ok s =
     (if k < length (inFlight s)
      then let metricsToSend = inFlight s ! k;
               s1 = s\<lparr>inFlight := take k (inFlight s) @ drop (Suc k) (inFlight s)\<rparr>
           in if ok then s1
              else if length (metricsQueue s1) < 100
                   then s1\<lparr>metricsQueue := metricsToSend @ metricsQueue s1\<rparr>
                   else s1
      else s)"

definition addMetric ::
  "string \<Rightarrow> number \<Rightarrow> (string \<times> string) list option \<Rightarrow> int \<Rightarrow> cloudwatch \<Rightarrow> cloudwatch" where
  "addMetric name v dims now s =
     (if \<not> isProduction s then s
      else let s1 = s\<lparr>metricsQueue := metricsQueue s @
                       [\<lparr>metric_name = name, metric_value = v, dimensions = dims,
                         metric_timestamp = Instant now\<rparr>]\<rparr>
           in if length (metricsQueue s1) \<ge> batchSize then flushMetrics s1 else s1)"

section \<open>Sequences of store operations\<close>

text \<open>The public operations that change the store, with the values the host supplies.\<close>

datatype store_op =
    CreateConversation "string option" string string int int
  | SetCurrentConversation string
  | AddMessage string int int new_message
  | UpdateMessage string message_updates int
  | DeleteConversation string

fun apply_op :: "manager \<Rightarrow> store_op \<Rightarrow> manager" where
  "apply_op s (CreateConversation ttl newId localeDate t1 t2) =
     snd (createConversation ttl newId localeDate t1 t2 s)"
| "apply_op s (SetCurrentConversation i) = setCurrentConversation i s"
| "apply_op s (AddMessage newId t1 t2 m) = snd (addMessage newId t1 t2 m s)"
| "apply_op s (UpdateMessage messageId updates t) = updateMessage messageId updates t s"
| "apply_op s (DeleteConversation i) = deleteConversation i s"

definition run_ops :: "manager \<Rightarrow> store_op list \<Rightarrow> manager" where
  "run_ops s ops = foldl apply_op s ops"

fun creates_or_selects :: "store_op \<Rightarrow> bool" where
  "creates_or_selects (CreateConversation _ _ _ _ _) = True"
| "creates_or_selects (SetCurrentConversation _) = True"
| "creates_or_selects _ = False"

fun adds_message :: "store_op \<Rightarrow> bool" where
  "adds_message (AddMessage _ _ _ _) = True"
| "adds_message _ = False"

section \<open>Notions the properties are stated with\<close>

text \<open>A message carries an emotion analysis when its payload has the \<^verbatim>\<open>emotions\<close> field.\<close>

definition carries_emotion :: "'d message \<Rightarrow> bool" where
  "carries_emotion msg =
     (case processingResult msg of None \<Rightarrow> False | Some r \<Rightarrow> emotions r \<noteq> None)"

text \<open>
  A message whose emotion analysis makes a key in the dictionary of counts: one with a
  primary emotion other than \<^verbatim>\<open>__proto__\<close>.
\<close>

definition carries_own_emotion :: "'d message \<Rightarrow> bool" where
  "carries_own_emotion msg =
     (case processingResult msg of
        None \<Rightarrow> False
      | Some r \<Rightarrow> (case emotions r of None \<Rightarrow> False | Some e \<Rightarrow> primary_emotion e \<noteq> ''__proto__''))"

text \<open>The primary emotions of the messages that carry an emotion analysis, in message order.\<close>

definition emotion_labels :: "'d message list \<Rightarrow> string list" where
  "emotion_labels msgs =
     concat (map (\<lambda>msg. case processingResult msg of
                           None \<Rightarrow> []
                         | Some r \<Rightarrow> (case emotions r of None \<Rightarrow> [] | Some e \<Rightarrow> [primary_emotion e]))
                 msgs)"

text \<open>Those of them that make a key in the dictionary of counts.\<close>

definition own_labels :: "'d message list \<Rightarrow> string list" where
  "own_labels msgs = filter (\<lambda>e. e \<noteq> ''__proto__'') (emotion_labels msgs)"

text \<open>The counting loop of the summarizer, on the list of the labels it meets.\<close>

definition tally :: "counts \<Rightarrow> string list \<Rightarrow> counts" where
  "tally cs labels = foldl (\<lambda>cs e. obj_add cs e (Count 1)) cs labels"

text \<open>The analysis payloads of the messages that carry one, in message order.\<close>

definition analyses :: "'d message list \<Rightarrow> processing_result list" where
  "analyses msgs =
     concat (map (\<lambda>msg. case processingResult msg of None \<Rightarrow> [] | Some r \<Rightarrow> [r]) msgs)"

definition weighted_polarity :: "processing_result \<Rightarrow> number" where
  "weighted_polarity r = fmul (sentimentValue (sentiment r)) (sentiment_confidence r)"

text \<open>
  The mean as doubles compute it: the sum from 0, term by term from the left, divided by
  the number of terms.
\<close>

definition sum_doubles :: "number list \<Rightarrow> number" where
  "sum_doubles xs = foldl fadd 0 xs"

definition mean :: "number list \<Rightarrow> number" where
  "mean xs = (if xs = [] then 0 else fdiv (sum_doubles xs) (of_nat_number (length xs)))"

text \<open>
  The average sentiment as the specification words it: the mean, over the messages that
  carry a sentiment analysis, of polarity times confidence, and 0 when there is none.
\<close>

definition specified_averageSentiment :: "'d message list \<Rightarrow> number" where
  "specified_averageSentiment msgs = mean (map weighted_polarity (analyses msgs))"

text \<open>
  The payloads that pass the test of \<^verbatim>\<open>updateEmotionalSummary\<close>: a confidence that is
  truthy (not 0, not NaN, not \<^verbatim>\<open>null\<close>).
\<close>

definition counted_analyses :: "'d message list \<Rightarrow> processing_result list" where
  "counted_analyses msgs = filter (\<lambda>r. truthy (sentiment_confidence r)) (analyses msgs)"

text \<open>
  A store in which every conversation has a summary exactly when one of its messages
  carries an emotion analysis with a primary emotion other than \<^verbatim>\<open>__proto__\<close>.
\<close>

definition summary_matches :: "'d conversation \<Rightarrow> bool" where
  "summary_matches conv =
     ((emotionalSummary conv \<noteq> None) = (\<exists>msg \<in> set (messages conv). carries_own_emotion msg))"

definition summaries_match :: "manager \<Rightarrow> bool" where
  "summaries_match s = (\<forall>conv \<in> set (conversations s). summary_matches conv)"


text \<open>Dictionaries whose values are all counts, and the count a key has in one.\<close>

definition is_count :: "tally_value \<Rightarrow> bool" where
  "is_count v = (case v of Count c \<Rightarrow> True | Text p f q \<Rightarrow> False)"

definition count_value :: "tally_value \<Rightarrow> nat" where
  "count_value v = (case v of Count c \<Rightarrow> c | Text p f q \<Rightarrow> 0)"

definition count_of :: "counts \<Rightarrow> string \<Rightarrow> nat" where
  "count_of cs k = (case obj_get cs k of None \<Rightarrow> 0 | Some v \<Rightarrow> count_value v)"


text \<open>An operation that leaves the analysis payload of every message as it is.\<close>

fun keeps_analyses :: "store_op \<Rightarrow> bool" where
  "keeps_analyses (UpdateMessage _ updates _) = (u_processingResult updates = None)"
| "keeps_analyses _ = True"














text \<open>
  A conversation object before and after some operations: the same id, and a conversation
  that had a message has kept its title and still has one.
\<close>

definition title_kept :: "date conversation \<Rightarrow> date conversation \<Rightarrow> bool" where
  "title_kept c c' =
     (conv_id c' = conv_id c \<and> (messages c \<noteq> [] \<longrightarrow> title c' = title c \<and> messages c' \<noteq> []))"

text \<open>The words of a content: the pieces between spaces that are not empty.\<close>

definition words_of :: "string \<Rightarrow> string list" where
  "words_of c = filter (\<lambda>w. w \<noteq> []) (split_on CHR '' '' c)"

section \<open>Example data\<close>

definition example_result :: "string \<Rightarrow> number \<Rightarrow> string option \<Rightarrow> processing_result" where
  "example_result label conf emo =
     \<lparr>transcript = ''hello'', original_transcript = None, transcript_confidence = 1,
      language = ''en'', language_name = None, is_south_indian_language = None,
      sentiment = label, sentiment_confidence = conf, sentiment_scores = [],
      processing_time = 1, totalProcessingTime = None, detected_language_info = None,
      sentiment_method = None,
      emotions = map_option (\<lambda>e. \<lparr>primary_emotion = e, emotion_scores = [], confidence = 1,
                                    category = ''neutral'', intensity = ''low'',
                                    top_emotions = None\<rparr>) emo\<rparr>"

definition example_message :: "string \<Rightarrow> processing_result option \<Rightarrow> date message" where
  "example_message i r =
     \<lparr>msg_id = i, mtype = User, content = ''hello'', timestamp = Instant 1000,
      audioUrl = Some ''blob:1'', processingResult = r, isTyping = Some False\<rparr>"

definition example_new_message :: "message_type \<Rightarrow> string \<Rightarrow> processing_result option \<Rightarrow> new_message" where
  "example_new_message ty txt r =
     \<lparr>nm_type = ty, nm_content = txt, nm_audioUrl = None, nm_processingResult = r,
      nm_isTyping = None\<rparr>"

definition example_conversation ::
  "string \<Rightarrow> date message list \<Rightarrow> int \<Rightarrow> emotional_summary option \<Rightarrow> date conversation" where
  "example_conversation i msgs t summary =
     \<lparr>conv_id = i, title = ''Conversation 11/3/2026'', messages = msgs,
      createdAt = Instant 0, updatedAt = Instant t, emotionalSummary = summary\<rparr>"

definition empty_storage :: local_storage where
  "empty_storage = \<lparr>item_conversations = None, quotaExceeded = False\<rparr>"

definition example_manager :: "date conversation list \<Rightarrow> string option \<Rightarrow> manager" where
  "example_manager convs cur =
     \<lparr>conversations = convs, currentConversationId = cur, localStorage = empty_storage\<rparr>"

definition no_updates :: message_updates where
  "no_updates =
     \<lparr>u_id = None, u_type = None, u_content = None, u_timestamp = None, u_audioUrl = None,
      u_processingResult = None, u_isTyping = None\<rparr>"

definition example_three_emotions :: "date conversation" where
  "example_three_emotions =
     example_conversation ''c1''
       [example_message ''m1'' (Some (example_result ''negative'' (decimal 5 10) (Some ''sad''))),
        example_message ''m2'' None,
        example_message ''m3'' (Some (example_result ''positive'' (decimal 5 10) (Some ''happy''))),
        example_message ''m4'' (Some (example_result ''positive'' (decimal 5 10) (Some ''happy'')))]
       0 None"

definition example_zero_confidence :: "date conversation" where
  "example_zero_confidence =
     example_conversation ''c1''
       [example_message ''m1'' (Some (example_result ''positive'' (decimal 8 10) (Some ''happy''))),
        example_message ''m2'' (Some (example_result ''neutral'' 0 None))]
       0 None"

definition example_two_sentiments :: "date conversation" where
  "example_two_sentiments =
     example_conversation ''c1''
       [example_message ''m1'' (Some (example_result ''positive'' (decimal 8 10) (Some ''happy''))),
        example_message ''m2'' (Some (example_result ''negative'' (decimal 4 10) None))]
       0 None"

definition example_stale_summary :: manager where
  "example_stale_summary =
     run_ops (new_manager empty_storage)
       [CreateConversation None ''c1'' ''11/3/2026'' 0 0,
        AddMessage ''m1'' 1 2 (example_new_message User ''hello'' None),
        UpdateMessage ''m1''
          (no_updates\<lparr>u_processingResult :=
             Some (Some (example_result ''positive'' (decimal 8 10) (Some ''happy'')))\<rparr>) 3]"

definition example_sentiment_only :: manager where
  "example_sentiment_only =
     run_ops (new_manager empty_storage)
       [CreateConversation None ''c1'' ''11/3/2026'' 0 0,
        AddMessage ''m1'' 1 2
          (example_new_message User ''hello'' (Some (example_result ''positive'' (decimal 8 10) None))),
        UpdateMessage ''m1'' (no_updates\<lparr>u_isTyping := Some (Some False)\<rparr>) 3]"


definition example_metric :: metric where
  "example_metric =
     \<lparr>metric_name = ''PageView'', metric_value = 1, dimensions = None,
      metric_timestamp = Instant 0\<rparr>"



definition example_constructor_label :: "date conversation" where
  "example_constructor_label =
     example_conversation ''c1''
       [example_message ''m1'' (Some (example_result ''neutral'' 0 (Some ''constructor''))),
        example_message ''m2'' (Some (example_result ''positive'' 0 (Some ''happy''))),
        example_message ''m3'' (Some (example_result ''positive'' 0 (Some ''happy'')))]
       0 None"

definition example_proto_labels :: "date conversation" where
  "example_proto_labels =
     example_conversation ''c1''
       [example_message ''m1'' (Some (example_result ''neutral'' 0 (Some ''__proto__''))),
        example_message ''m2'' (Some (example_result ''neutral'' 0 (Some ''__proto__''))),
        example_message ''m3'' (Some (example_result ''positive'' 0 (Some ''happy'')))]
       0 None"



section \<open>Basic facts about the store\<close>

lemmas example_defs = example_manager_def example_conversation_def example_message_def
  example_new_message_def example_result_def empty_storage_def no_updates_def

lemma find_None_iff_id: "find (\<lambda>c. conv_id c = i) cs = None \<longleftrightarrow> i \<notin> conv_id ` set cs"
  by (induction cs) auto

lemma find_Some_P: "find P xs = Some x \<Longrightarrow> P x \<and> x \<in> set xs"
  by (induction xs) (auto split: if_splits)

lemma find_update_first:
  "find P xs = Some x \<Longrightarrow> P y \<Longrightarrow> find P (update_first P (\<lambda>_. y) xs) = Some y"
  by (induction xs) (auto split: if_splits)

lemma find_update_first_const:
  "find P xs = Some c \<Longrightarrow> update_first P (\<lambda>_. g c) xs = update_first P g xs"
  by (induction xs) (auto split: if_splits)

lemma update_first_all2:
  "(\<And>x. R x x) \<Longrightarrow> (\<And>x. x \<in> set xs \<Longrightarrow> P x \<Longrightarrow> R x (f x))
     \<Longrightarrow> list_all2 R xs (update_first P f xs)"
  by (induction xs) (auto simp: list_all2_refl)

lemma findIndex_None_iff: "findIndex P xs = None \<longleftrightarrow> (\<forall>x \<in> set xs. \<not> P x)"
  by (induction xs) auto

lemma getCurrent_None_ptr: "currentConversationId s = None \<Longrightarrow> getCurrentConversation s = None"
  by (simp add: getCurrentConversation_def)

lemma getCurrent_None_stale:
  "currentConversationId s = Some i \<Longrightarrow> i \<notin> conv_id ` set (conversations s)
     \<Longrightarrow> getCurrentConversation s = None"
  by (simp add: getCurrentConversation_def find_None_iff_id)

lemma getCurrent_Some_id:
  "getCurrentConversation s = Some c \<Longrightarrow>
     currentConversationId s = Some (conv_id c) \<and> conv_id c \<noteq> []
     \<and> find (\<lambda>x. conv_id x = conv_id c) (conversations s) = Some c"
  by (auto simp: getCurrentConversation_def split: option.splits if_splits dest: find_Some_P)

lemma save_conversations [simp]: "conversations (saveConversations s) = conversations s"
  by (simp add: saveConversations_def)

lemma save_current [simp]: "currentConversationId (saveConversations s) = currentConversationId s"
  by (simp add: saveConversations_def)

lemma getCurrent_save [simp]:
  "getCurrentConversation (saveConversations s) = getCurrentConversation s"
  by (simp add: getCurrentConversation_def split: option.splits)

lemma getCurrent_store_current:
  assumes "getCurrentConversation s = Some c" "conv_id c' = conv_id c"
  shows "getCurrentConversation (store_current c' s) = Some c'"
proof -
  from getCurrent_Some_id[OF assms(1)] have
    cur: "currentConversationId s = Some (conv_id c)" and ne: "conv_id c \<noteq> []"
    and f: "find (\<lambda>x. conv_id x = conv_id c) (conversations s) = Some c" by auto
  have "find (\<lambda>x. conv_id x = conv_id c)
          (update_first (\<lambda>x. conv_id x = conv_id c) (\<lambda>_. c') (conversations s)) = Some c'"
    using find_update_first[OF f, of c'] assms(2) by simp
  then show ?thesis using cur ne assms(2)
    by (simp add: getCurrentConversation_def store_current_def)
qed

lemma updateEmotionalSummary_fields [simp]:
  "conv_id (updateEmotionalSummary c) = conv_id c"
  "title (updateEmotionalSummary c) = title c"
  "messages (updateEmotionalSummary c) = messages c"
  "createdAt (updateEmotionalSummary c) = createdAt c"
  "updatedAt (updateEmotionalSummary c) = updatedAt c"
  by (simp_all add: updateEmotionalSummary_def split: prod.splits)

lemma push_message_fields [simp]:
  "conv_id (push_message m nm t2 c) = conv_id c"
  "messages (push_message m nm t2 c) = messages c @ [nm]"
  "title (push_message m nm t2 c) =
     (if messages c = [] \<and> nm_type m = User then generateTitle (nm_content m) else title c)"
  by (simp_all add: push_message_def Let_def)

lemma addMessage_conversations:
  assumes "getCurrentConversation s = Some c"
  shows "conversations (snd (addMessage newId t1 t2 m s)) =
     update_first (\<lambda>x. conv_id x = conv_id c)
       (push_message m
          \<lparr>msg_id = newId, mtype = nm_type m, content = nm_content m,
           timestamp = Instant t1, audioUrl = nm_audioUrl m,
           processingResult = nm_processingResult m, isTyping = nm_isTyping m\<rparr> t2)
       (conversations s)"
  using assms getCurrent_Some_id[OF assms]
  by (simp add: addMessage_def store_current_def find_update_first_const Let_def)

section \<open>Adding a message without a current conversation\<close>

text \<open>
  C5. Whenever there is no current conversation (the pointer is unset, or it holds an id
  that no conversation of the list has), \<open>addMessage\<close> fails with the error
  "No active conversation" and the whole state, the conversation list and local storage
  included, is as before.
\<close>

theorem addMessage_no_active_conversation:
  "currentConversationId s = None \<or>
   (\<exists>i. currentConversationId s = Some i \<and> i \<notin> conv_id ` set (conversations s))
   \<Longrightarrow> addMessage newId t1 t2 m s = (Inl NoActiveConversation, s)"
proof -
  assume "currentConversationId s = None \<or>
   (\<exists>i. currentConversationId s = Some i \<and> i \<notin> conv_id ` set (conversations s))"
  then have "getCurrentConversation s = None"
    by (auto simp: getCurrent_None_ptr getCurrent_None_stale)
  then show ?thesis by (simp add: addMessage_def)
qed

theorem addMessage_no_active_conversation_witness:
  "(\<exists>i. currentConversationId
          (example_manager [example_conversation ''c1'' [] 0 None] (Some ''gone'')) = Some i
        \<and> i \<notin> conv_id ` set (conversations
          (example_manager [example_conversation ''c1'' [] 0 None] (Some ''gone''))))
   \<and> addMessage ''m1'' 1 2 (example_new_message User ''hello'' None)
         (example_manager [example_conversation ''c1'' [] 0 None] (Some ''gone''))
       = (Inl NoActiveConversation,
          example_manager [example_conversation ''c1'' [] 0 None] (Some ''gone''))
   \<and> currentConversationId (example_manager [example_conversation ''c1'' [] 0 None] None) = None
   \<and> addMessage ''m1'' 1 2 (example_new_message User ''hello'' None)
         (example_manager [example_conversation ''c1'' [] 0 None] None)
       = (Inl NoActiveConversation, example_manager [example_conversation ''c1'' [] 0 None] None)"
proof -
  let ?stale = "example_manager [example_conversation ''c1'' [] 0 None] (Some ''gone'')"
  let ?unset = "example_manager [example_conversation ''c1'' [] 0 None] None"
  have h1: "\<exists>i. currentConversationId ?stale = Some i \<and> i \<notin> conv_id ` set (conversations ?stale)"
    by (simp add: example_defs)
  have h2: "currentConversationId ?unset = None"
    by (simp add: example_defs)
  from h1 have "addMessage ''m1'' 1 2 (example_new_message User ''hello'' None) ?stale
       = (Inl NoActiveConversation, ?stale)"
    by (intro addMessage_no_active_conversation) simp
  moreover from h2 have "addMessage ''m1'' 1 2 (example_new_message User ''hello'' None) ?unset
       = (Inl NoActiveConversation, ?unset)"
    by (intro addMessage_no_active_conversation) simp
  ultimately show ?thesis using h1 h2 by simp
qed

section \<open>Deleting the current conversation\<close>

lemma apply_op_keeps_unset:
  "\<not> creates_or_selects op \<Longrightarrow> currentConversationId s = None
     \<Longrightarrow> currentConversationId (apply_op s op) = None"
  by (cases op)
    (auto simp: addMessage_def updateMessage_def deleteConversation_def getCurrentConversation_def)

lemma run_ops_keeps_unset:
  "\<forall>op \<in> set ops. \<not> creates_or_selects op \<Longrightarrow> currentConversationId s = None
     \<Longrightarrow> currentConversationId (run_ops s ops) = None"
  unfolding run_ops_def
  by (induction ops arbitrary: s) (auto simp: apply_op_keeps_unset)

text \<open>
  C6. After \<open>deleteConversation i\<close> where \<open>i\<close> is the current conversation, the list is the
  old one without the conversations of id \<open>i\<close>, and \<open>getCurrentConversation\<close> returns null,
  and goes on returning null after any operations that neither create nor select a
  conversation. Besides, \<open>getCurrentConversation\<close> returns null whenever the pointer is
  unset or holds an id that no conversation of the list has.
\<close>

theorem deleteConversation_clears_current:
  "(currentConversationId s = Some i \<longrightarrow>
      conversations (deleteConversation i s) = filter (\<lambda>c. conv_id c \<noteq> i) (conversations s)
    \<and> i \<notin> conv_id ` set (conversations (deleteConversation i s))
    \<and> getCurrentConversation (deleteConversation i s) = None
    \<and> (\<forall>ops. (\<forall>op \<in> set ops. \<not> creates_or_selects op) \<longrightarrow>
          getCurrentConversation (run_ops (deleteConversation i s) ops) = None))
   \<and> (currentConversationId s = None \<or>
       (\<exists>j. currentConversationId s = Some j \<and> j \<notin> conv_id ` set (conversations s))
      \<longrightarrow> getCurrentConversation s = None)"
proof -
  have unset: "currentConversationId (deleteConversation i s) = None"
    if "currentConversationId s = Some i"
    using that by (simp add: deleteConversation_def)
  have list: "conversations (deleteConversation i s) = filter (\<lambda>c. conv_id c \<noteq> i) (conversations s)"
    by (simp add: deleteConversation_def)
  have gone: "i \<notin> conv_id ` set (conversations (deleteConversation i s))"
    unfolding list by auto
  show ?thesis
    using unset list gone
    by (auto simp: getCurrent_None_ptr getCurrent_None_stale run_ops_keeps_unset)
qed

theorem deleteConversation_clears_current_witness:
  "currentConversationId
     (example_manager [example_conversation ''c1'' [] 0 None, example_conversation ''c2'' [] 0 None]
        (Some ''c1'')) = Some ''c1''
   \<and> conversations (deleteConversation ''c1''
        (example_manager [example_conversation ''c1'' [] 0 None, example_conversation ''c2'' [] 0 None]
           (Some ''c1''))) = [example_conversation ''c2'' [] 0 None]
   \<and> getCurrentConversation (run_ops (deleteConversation ''c1''
        (example_manager [example_conversation ''c1'' [] 0 None, example_conversation ''c2'' [] 0 None]
           (Some ''c1'')))
        [AddMessage ''m1'' 1 2 (example_new_message User ''hello'' None),
         UpdateMessage ''m1'' no_updates 3, DeleteConversation ''c2'']) = None"
proof -
  let ?s = "example_manager
     [example_conversation ''c1'' [] 0 None, example_conversation ''c2'' [] 0 None] (Some ''c1'')"
  let ?ops = "[AddMessage ''m1'' 1 2 (example_new_message User ''hello'' None),
               UpdateMessage ''m1'' no_updates 3, DeleteConversation ''c2'']"
  have h1: "currentConversationId ?s = Some ''c1''"
    by (simp add: example_defs)
  have h2: "\<forall>op \<in> set ?ops. \<not> creates_or_selects op"
    by simp
  have f: "filter (\<lambda>c. conv_id c \<noteq> ''c1'') (conversations ?s) = [example_conversation ''c2'' [] 0 None]"
    by (simp add: example_defs)
  from deleteConversation_clears_current[of ?s "''c1''"] h1 h2 f
  have "conversations (deleteConversation ''c1'' ?s) = [example_conversation ''c2'' [] 0 None]
        \<and> getCurrentConversation (run_ops (deleteConversation ''c1'' ?s) ?ops) = None"
    by metis
  with h1 show ?thesis by blast
qed

section \<open>Updating a message that the current conversation does not have\<close>

text \<open>
  C8. \<open>updateMessage\<close> with an id that no message of the current conversation has (whether
  or not a message of another conversation has it, and also when there is no current
  conversation) changes nothing: the state after it, with every conversation, message and
  \<open>updatedAt\<close> and with local storage, is the state before it.
\<close>

theorem updateMessage_unknown_id_noop:
  "(case getCurrentConversation s of
      None \<Rightarrow> True
    | Some conversation \<Rightarrow> messageId \<notin> msg_id ` set (messages conversation))
   \<Longrightarrow> updateMessage messageId updates t s = s"
proof (cases "getCurrentConversation s")
  case None
  then show ?thesis by (simp add: updateMessage_def)
next
  case (Some conversation)
  assume "case getCurrentConversation s of
      None \<Rightarrow> True
    | Some conversation \<Rightarrow> messageId \<notin> msg_id ` set (messages conversation)"
  with Some have "findIndex (\<lambda>m. msg_id m = messageId) (messages conversation) = None"
    by (auto simp: findIndex_None_iff)
  with Some show ?thesis by (simp add: updateMessage_def)
qed

theorem updateMessage_unknown_id_noop_witness:
  "getCurrentConversation
     (example_manager [example_conversation ''c1'' [example_message ''m1'' None] 0 None,
                       example_conversation ''c2'' [example_message ''m2'' None] 0 None]
        (Some ''c1''))
     = Some (example_conversation ''c1'' [example_message ''m1'' None] 0 None)
   \<and> ''m2'' \<notin> msg_id ` set (messages (example_conversation ''c1'' [example_message ''m1'' None] 0 None))
   \<and> updateMessage ''m2'' (no_updates\<lparr>u_isTyping := Some (Some False)\<rparr>) 5
       (example_manager [example_conversation ''c1'' [example_message ''m1'' None] 0 None,
                         example_conversation ''c2'' [example_message ''m2'' None] 0 None]
          (Some ''c1''))
     = example_manager [example_conversation ''c1'' [example_message ''m1'' None] 0 None,
                        example_conversation ''c2'' [example_message ''m2'' None] 0 None]
          (Some ''c1'')"
proof -
  let ?s = "example_manager [example_conversation ''c1'' [example_message ''m1'' None] 0 None,
                             example_conversation ''c2'' [example_message ''m2'' None] 0 None]
              (Some ''c1'')"
  have cur: "getCurrentConversation ?s
       = Some (example_conversation ''c1'' [example_message ''m1'' None] 0 None)"
    by (simp add: example_defs getCurrentConversation_def)
  have absent: "''m2'' \<notin> msg_id ` set (messages (example_conversation ''c1'' [example_message ''m1'' None] 0 None))"
    by (simp add: example_defs)
  have "updateMessage ''m2'' (no_updates\<lparr>u_isTyping := Some (Some False)\<rparr>) 5 ?s = ?s"
    by (rule updateMessage_unknown_id_noop) (simp add: cur absent)
  with cur absent show ?thesis by simp
qed

section \<open>Titles\<close>

lemma split_on_nonempty: "split_on sep s \<noteq> []"
  by (induction s) (auto split: list.splits)

lemma join_with_Cons: "ws \<noteq> [] \<Longrightarrow> join_with sep (w # ws) = w @ sep @ join_with sep ws"
  by (cases ws) auto

lemma join_split: "join_with [sep] (split_on sep s) = s"
proof (induction s)
  case Nil
  then show ?case by simp
next
  case (Cons c cs)
  obtain w ws where ws: "split_on sep cs = w # ws"
    using split_on_nonempty[of sep cs] by (cases "split_on sep cs") auto
  show ?case
  proof (cases "c = sep")
    case True
    then show ?thesis using Cons ws by (simp add: join_with_Cons)
  next
    case False
    then show ?thesis using Cons ws by (cases ws) auto
  qed
qed

lemma generateTitle_short: "length (split_on CHR '' '' c) \<le> 6 \<Longrightarrow> generateTitle c = c"
  using join_split[of "CHR '' ''" c] by (simp add: generateTitle_def)

lemma addMessage_title_kept:
  "list_all2 title_kept (conversations s) (conversations (snd (addMessage newId t1 t2 m s)))"
proof (cases "getCurrentConversation s")
  case None
  then show ?thesis by (simp add: addMessage_def list_all2_refl title_kept_def)
next
  case (Some c)
  show ?thesis unfolding addMessage_conversations[OF Some]
    by (rule update_first_all2) (auto simp: title_kept_def)
qed

lemma title_kept_trans: "title_kept a b \<Longrightarrow> title_kept b c \<Longrightarrow> title_kept a c"
  by (auto simp: title_kept_def)

lemma run_adds_title_kept:
  "\<forall>op \<in> set ops. adds_message op
     \<Longrightarrow> list_all2 title_kept (conversations s) (conversations (run_ops s ops))"
proof (induction ops arbitrary: s)
  case Nil
  then show ?case by (simp add: run_ops_def list_all2_refl title_kept_def)
next
  case (Cons op ops)
  then obtain newId t1 t2 m where op: "op = AddMessage newId t1 t2 m"
    by (cases op) auto
  have 1: "list_all2 title_kept (conversations s) (conversations (apply_op s op))"
    using addMessage_title_kept op by simp
  have 2: "list_all2 title_kept (conversations (apply_op s op))
             (conversations (run_ops (apply_op s op) ops))"
    using Cons by simp
  have "list_all2 title_kept (conversations s) (conversations (run_ops (apply_op s op) ops))"
    using list_all2_trans[OF _ 1 2] title_kept_trans by blast
  then show ?case by (simp add: run_ops_def)
qed

text \<open>
  C4, as amended. The title of the content "a b c d e f g h" is "a b c d e f...". In
  general the rule is one on the pieces into which the single spaces cut the content,
  the empty pieces (in front of a leading space, behind a trailing one, between two
  adjacent ones) included: the title of a content of at most 6 pieces is the content
  itself, with no ellipsis, and that of a content of more pieces is its first 6 pieces,
  joined by spaces, followed by "...". When the current conversation has no message and
  the message added is of type user, the conversation's title becomes the title of the
  message's content. And a conversation that has a message keeps its title (and its
  place in the list) through every sequence of \<open>addMessage\<close> calls.
\<close>

theorem title_derivation:
  "generateTitle ''a b c d e f g h'' = ''a b c d e f...''
   \<and> (length (split_on CHR '' '' txt) \<le> 6 \<longrightarrow> generateTitle txt = txt)
   \<and> (length (split_on CHR '' '' txt) > 6 \<longrightarrow>
        generateTitle txt = join_with '' '' (take 6 (split_on CHR '' '' txt)) @ ''...'')
   \<and> (getCurrentConversation s = Some c \<and> messages c = [] \<and> nm_type m = User \<longrightarrow>
        (\<exists>c'. getCurrentConversation (snd (addMessage newId t1 t2 m s)) = Some c'
              \<and> title c' = generateTitle (nm_content m) \<and> messages c' \<noteq> []))
   \<and> (k < length (conversations s) \<and> messages (conversations s ! k) \<noteq> []
        \<and> (\<forall>op \<in> set ops. adds_message op) \<longrightarrow>
        k < length (conversations (run_ops s ops))
        \<and> conv_id (conversations (run_ops s ops) ! k) = conv_id (conversations s ! k)
        \<and> title (conversations (run_ops s ops) ! k) = title (conversations s ! k))"
proof -
  have example: "generateTitle ''a b c d e f g h'' = ''a b c d e f...''"
    by (simp add: generateTitle_def)
  have first: "\<exists>c'. getCurrentConversation (snd (addMessage newId t1 t2 m s)) = Some c'
              \<and> title c' = generateTitle (nm_content m) \<and> messages c' \<noteq> []"
    if cur: "getCurrentConversation s = Some c" and "messages c = []" "nm_type m = User"
    using that getCurrent_store_current[OF cur] by (simp add: addMessage_def Let_def)
  have later: "k < length (conversations (run_ops s ops))
        \<and> conv_id (conversations (run_ops s ops) ! k) = conv_id (conversations s ! k)
        \<and> title (conversations (run_ops s ops) ! k) = title (conversations s ! k)"
    if "k < length (conversations s)" "messages (conversations s ! k) \<noteq> []"
      "\<forall>op \<in> set ops. adds_message op"
  proof -
    have a: "list_all2 title_kept (conversations s) (conversations (run_ops s ops))"
      using run_adds_title_kept that(3) by blast
    then have "length (conversations (run_ops s ops)) = length (conversations s)"
      by (simp add: list_all2_lengthD)
    moreover have "title_kept (conversations s ! k) (conversations (run_ops s ops) ! k)"
      using a that(1) by (simp add: list_all2_nthD)
    ultimately show ?thesis using that by (simp add: title_kept_def)
  qed
  show ?thesis
    using first later generateTitle_short example
    by (auto simp: generateTitle_def)
qed

theorem title_derivation_witness:
  "getCurrentConversation (example_manager [example_conversation ''c1'' [] 0 None] (Some ''c1''))
     = Some (example_conversation ''c1'' [] 0 None)
   \<and> messages (example_conversation ''c1'' [] 0 None) = []
   \<and> nm_type (example_new_message User ''a b c d e f g h'' None) = User
   \<and> (\<exists>c'. getCurrentConversation
              (snd (addMessage ''m1'' 1 2 (example_new_message User ''a b c d e f g h'' None)
                 (example_manager [example_conversation ''c1'' [] 0 None] (Some ''c1'')))) = Some c'
           \<and> title c' = ''a b c d e f...'')
   \<and> (0 :: nat) < length (conversations
          (example_manager [example_conversation ''c1'' [example_message ''m0'' None] 0 None]
             (Some ''c1'')))
   \<and> title (conversations (run_ops
          (example_manager [example_conversation ''c1'' [example_message ''m0'' None] 0 None]
             (Some ''c1''))
          [AddMessage ''m1'' 1 2 (example_new_message User ''x y'' None)]) ! 0)
       = ''Conversation 11/3/2026''
   \<and> length (split_on CHR '' '' ''a b c d e f'') \<le> 6
   \<and> generateTitle ''a b c d e f'' = ''a b c d e f''"
proof -
  let ?s0 = "example_manager [example_conversation ''c1'' [] 0 None] (Some ''c1'')"
  let ?c0 = "example_conversation ''c1'' [] 0 None"
  let ?m = "example_new_message User ''a b c d e f g h'' None"
  let ?s1 = "example_manager [example_conversation ''c1'' [example_message ''m0'' None] 0 None]
               (Some ''c1'')"
  let ?ops = "[AddMessage ''m1'' 1 2 (example_new_message User ''x y'' None)]"
  have h1: "getCurrentConversation ?s0 = Some ?c0 \<and> messages ?c0 = [] \<and> nm_type ?m = User"
    by (simp add: example_defs getCurrentConversation_def)
  have h2: "0 < length (conversations ?s1) \<and> messages (conversations ?s1 ! 0) \<noteq> []
        \<and> (\<forall>op \<in> set ?ops. adds_message op)"
    by (simp add: example_defs)
  have h3: "length (split_on CHR '' '' ''a b c d e f'') \<le> 6"
    by simp
  have t: "title (conversations ?s1 ! 0) = ''Conversation 11/3/2026''"
    by (simp add: example_defs)
  have g: "generateTitle (nm_content ?m) = ''a b c d e f...''"
    by (simp add: example_defs generateTitle_def)
  from title_derivation[of "''a b c d e f''" ?s0 ?c0 ?m "''m1''" 1 2 0 "[]"] h1 g h3
  have a: "(\<exists>c'. getCurrentConversation (snd (addMessage ''m1'' 1 2 ?m ?s0)) = Some c'
           \<and> title c' = ''a b c d e f...'') \<and> generateTitle ''a b c d e f'' = ''a b c d e f''"
    by auto
  from title_derivation[of "''x''" ?s1 ?c0 ?m "''m1''" 1 2 0 ?ops] h2 t
  have b: "title (conversations (run_ops ?s1 ?ops) ! 0) = ''Conversation 11/3/2026''" by simp
  from h1 h2 h3 a b show ?thesis by simp
qed

text \<open>
  The statement of C4 as the specification words it, on words, fails on a content with a
  leading space: " a b c d e f" has 6 words, and its title has the ellipsis and 5 of them.
\<close>

theorem title_words_counterexample:
  "words_of '' a b c d e f'' = [''a'', ''b'', ''c'', ''d'', ''e'', ''f'']
   \<and> length (words_of '' a b c d e f'') = 6
   \<and> generateTitle '' a b c d e f'' = '' a b c d e...''"
  by (simp add: words_of_def generateTitle_def)

section \<open>Arithmetic of doubles\<close>








lemma bit_length_numeral:
  "bit_length 0 = 0"
  "bit_length 1 = 1"
  "bit_length (numeral (num.Bit0 n)) = 1 + bit_length (numeral n)"
  "bit_length (numeral (num.Bit1 n)) = 1 + bit_length (numeral n)"
proof -
  show "bit_length 0 = 0" by (subst bit_length.simps) simp
  then show "bit_length 1 = 1" by (subst bit_length.simps) simp
  have "numeral (num.Bit0 n) div 2 = (numeral n :: int)" by simp
  then show "bit_length (numeral (num.Bit0 n)) = 1 + bit_length (numeral n)"
    by (subst bit_length.simps) simp
  have "numeral (num.Bit1 n) div 2 = (numeral n :: int)" by simp
  then show "bit_length (numeral (num.Bit1 n)) = 1 + bit_length (numeral n)"
    by (subst bit_length.simps) simp
qed

lemmas number_defs = decimal_def fdiv_def fadd_def fmul_def divide_doubles_def add_doubles_def
  multiply_doubles_def to_double_def of_nat_number_def round_to_double_def signed_infinity_def
  is_nan_def is_infinite_def is_zero_def is_negative_def mantissa_def exponent_def
  zero_number_def one_number_def minus_one_def Let_def bit_length_numeral


lemma decimal_values:
  "decimal 8 10 = Finite 7205759403792794 (- 53)"
  "decimal 4 10 = Finite 7205759403792794 (- 54)"
  "decimal 2 10 = Finite 7205759403792794 (- 55)"
  "decimal 5 10 = Finite 4503599627370496 (- 53)"
  by (simp_all add: number_defs)

lemma scenario_average:
  "fdiv (fadd (fadd 0 (fmul 1 (decimal 8 10))) (fmul minus_one (decimal 4 10)))
     (of_nat_number 2) = decimal 2 10"
  unfolding decimal_values by (simp add: number_defs)

lemma zero_confidence_averages:
  "fdiv (fadd 0 (fmul 1 (decimal 8 10))) (of_nat_number 1) = decimal 8 10"
  "fdiv (fadd (fadd 0 (fmul 1 (decimal 8 10))) (fmul 0 0)) (of_nat_number 2) = decimal 4 10"
  unfolding decimal_values by (simp_all add: number_defs)


lemma truthy_values:
  "truthy (decimal 8 10)" "truthy (decimal 4 10)" "truthy (decimal 5 10)" "\<not> truthy 0"
  unfolding decimal_values by (simp_all add: truthy_def zero_number_def)

section \<open>The emotional summary\<close>

lemmas store_defs = getCurrentConversation_def addMessage_def updateMessage_def
  deleteConversation_def createConversation_def setCurrentConversation_def store_current_def
  push_message_def saveConversations_def loadConversations_def new_manager_def merge_message_def
  run_ops_def Let_def

lemmas count_defs = obj_add_def obj_lookup_def or_zero_def obj_set_def prototype_functions_def
  sort_desc_def sorts_after_def to_number_def enumerated_before_def is_array_index_def
  is_digit_def

lemmas summary_defs = updateEmotionalSummary_def summary_step_def count_defs
  emotion_labels_def analyses_def counted_analyses_def specified_averageSentiment_def
  weighted_polarity_def sentimentValue_def mean_def sum_doubles_def

lemma obj_get_replace:
  "obj_get (obj_replace cs k v) e = (if e = k \<and> obj_get cs k \<noteq> None then Some v else obj_get cs e)"
  by (induction cs) (auto split: if_splits)

lemma obj_get_insert:
  "obj_get cs k = None \<Longrightarrow> obj_get (obj_insert cs k v) e = (if e = k then Some v else obj_get cs e)"
  by (induction cs) (auto split: if_splits)

lemma obj_get_set: "obj_get (obj_set cs k v) e = (if e = k then Some v else obj_get cs e)"
  by (cases "obj_get cs k") (simp_all add: obj_set_def obj_get_replace obj_get_insert)

lemma obj_get_map_of: "obj_get cs k = map_of cs k"
  by (induction cs) auto

lemma obj_get_None_iff: "obj_get cs k = None \<longleftrightarrow> k \<notin> fst ` set cs"
  by (simp add: obj_get_map_of map_of_eq_None_iff)

lemma map_fst_obj_replace: "map fst (obj_replace cs k v) = map fst cs"
  by (induction cs) auto

lemma set_obj_replace: "set (obj_replace cs k v) \<subseteq> insert (k, v) (set cs)"
  by (induction cs) (auto split: if_splits)

lemma set_obj_insert: "set (obj_insert cs k v) = insert (k, v) (set cs)"
  by (induction cs) (auto split: if_splits)

lemma distinct_obj_insert:
  "distinct (map fst cs) \<Longrightarrow> k \<notin> fst ` set cs \<Longrightarrow> distinct (map fst (obj_insert cs k v))"
  by (induction cs) (auto simp: set_obj_insert)

lemma keys_obj_set: "fst ` set (obj_set cs k v) = insert k (fst ` set cs)"
proof (cases "obj_get cs k")
  case None
  then show ?thesis by (simp add: obj_set_def set_obj_insert)
next
  case (Some a)
  then have "k \<in> fst ` set cs" using obj_get_None_iff[of cs k] by auto
  moreover have "fst ` set (obj_replace cs k v) = fst ` set cs"
    using map_fst_obj_replace[of cs k v] by (metis list.set_map)
  ultimately show ?thesis using Some by (auto simp: obj_set_def)
qed

lemma values_obj_set: "set (obj_set cs k v) \<subseteq> insert (k, v) (set cs)"
  by (cases "obj_get cs k") (auto simp: obj_set_def set_obj_insert dest: subsetD[OF set_obj_replace])

lemma distinct_obj_set:
  assumes "distinct (map fst cs)"
  shows "distinct (map fst (obj_set cs k v))"
proof (cases "obj_get cs k")
  case None
  then have "k \<notin> fst ` set cs" by (simp add: obj_get_None_iff)
  then show ?thesis using assms None by (simp add: obj_set_def distinct_obj_insert)
next
  case (Some a)
  then show ?thesis using assms by (simp add: obj_set_def map_fst_obj_replace)
qed

lemma obj_get_Some_iff: "distinct (map fst cs) \<Longrightarrow> obj_get cs k = Some v \<longleftrightarrow> (k, v) \<in> set cs"
  by (simp add: obj_get_map_of)

lemma obj_add_proto: "obj_add cs ''__proto__'' n = cs"
  by (simp add: obj_add_def)

lemma tally_own: "tally cs ls = tally cs (filter (\<lambda>e. e \<noteq> ''__proto__'') ls)"
  unfolding tally_def
  by (induction ls arbitrary: cs) (simp_all add: obj_add_proto)

lemma obj_add_keys: "k \<noteq> ''__proto__'' \<Longrightarrow> fst ` set (obj_add cs k n) = insert k (fst ` set cs)"
  by (simp add: obj_add_def keys_obj_set)

lemma tally_keys: "fst ` set (tally cs ls) = fst ` set cs \<union> (set ls - {''__proto__''})"
  unfolding tally_def
proof (induction ls arbitrary: cs)
  case Nil
  then show ?case by simp
next
  case (Cons e ls)
  show ?case
  proof (cases "e = ''__proto__''")
    case True
    then show ?thesis using Cons[of cs] by (auto simp: obj_add_proto)
  next
    case False
    then show ?thesis using Cons[of "obj_add cs e (Count 1)"] by (auto simp: obj_add_keys)
  qed
qed

lemma tally_distinct: "distinct (map fst cs) \<Longrightarrow> distinct (map fst (tally cs ls))"
  unfolding tally_def
  by (induction ls arbitrary: cs) (auto simp: obj_add_def distinct_obj_set)

lemma obj_add_plain:
  assumes "\<forall>x \<in> set cs. is_count (snd x)" "k \<notin> set object_prototype_keys"
  shows "obj_add cs k (Count n) = obj_set cs k (Count (count_of cs k + n))"
proof (cases "obj_get cs k")
  case None
  then show ?thesis using assms(2)
    by (simp add: obj_add_def obj_lookup_def or_zero_def count_of_def object_prototype_keys_def)
next
  case (Some v)
  then have "(k, v) \<in> set cs" by (simp add: obj_get_map_of map_of_SomeD)
  then have "is_count v" using assms(1) by fastforce
  then obtain c where "v = Count c" by (cases v) (auto simp: is_count_def)
  then show ?thesis using Some assms(2)
    by (simp add: obj_add_def obj_lookup_def or_zero_def count_of_def count_value_def
        object_prototype_keys_def)
qed

lemma obj_set_plain:
  "\<forall>x \<in> set cs. is_count (snd x) \<Longrightarrow> \<forall>x \<in> set (obj_set cs k (Count n)). is_count (snd x)"
  using values_obj_set[of cs k "Count n"] by (auto simp: is_count_def)

lemma tally_plain:
  assumes "\<forall>x \<in> set cs. is_count (snd x)" "\<forall>e \<in> set ls. e \<notin> set object_prototype_keys"
  shows "(\<forall>x \<in> set (tally cs ls). is_count (snd x))
         \<and> (\<forall>e. obj_get (tally cs ls) e =
                (if e \<in> set ls then Some (Count (count_of cs e + count_list ls e))
                 else obj_get cs e))"
  using assms
proof (induction ls arbitrary: cs)
  case Nil
  then show ?case by (simp add: tally_def)
next
  case (Cons l ls)
  let ?cs = "obj_set cs l (Count (Suc (count_of cs l)))"
  have step: "obj_add cs l (Count 1) = ?cs"
    using Cons.prems by (simp add: obj_add_plain)
  have plain: "\<forall>x \<in> set ?cs. is_count (snd x)"
    using Cons.prems(1) by (rule obj_set_plain)
  have t: "tally cs (l # ls) = tally ?cs ls"
    by (simp only: tally_def foldl.simps step)
  have ih: "(\<forall>x \<in> set (tally ?cs ls). is_count (snd x))
         \<and> (\<forall>e. obj_get (tally ?cs ls) e =
                (if e \<in> set ls then Some (Count (count_of ?cs e + count_list ls e))
                 else obj_get ?cs e))"
    using Cons.IH[OF plain] Cons.prems(2) by simp
  have c: "count_of ?cs e = (if e = l then Suc (count_of cs l) else count_of cs e)" for e
    by (simp add: count_of_def count_value_def obj_get_set)
  show ?case unfolding t using ih by (auto simp: c obj_get_set)
qed

lemma summary_fold:
  "foldl summary_step (cs, t, n) msgs =
     (tally cs (emotion_labels msgs),
      foldl fadd t (map weighted_polarity (counted_analyses msgs)),
      n + length (counted_analyses msgs))"
  by (induction msgs arbitrary: cs t n)
    (auto simp: summary_step_def tally_def emotion_labels_def counted_analyses_def analyses_def
       weighted_polarity_def Let_def split: option.splits)

lemma insert_desc_plain:
  assumes "is_count (snd x)" "\<forall>y \<in> set ys. is_count (snd y)"
  shows "insert_desc x ys = insort_key (\<lambda>e. - int (count_value (snd e))) x ys"
  using assms
proof (induction ys)
  case Nil
  then show ?case by simp
next
  case (Cons y ys)
  obtain a where a: "snd x = Count a" using Cons.prems(1) by (cases "snd x") (auto simp: is_count_def)
  obtain b where b: "snd y = Count b" using Cons.prems(2) by (cases "snd y") (auto simp: is_count_def)
  have ca: "count_value (snd x) = a" using a by (simp add: count_value_def)
  have cb: "count_value (snd y) = b" using b by (simp add: count_value_def)
  show ?case using Cons a b ca cb by (auto simp: sorts_after_def to_number_def)
qed

lemma set_insert_desc: "set (insert_desc x ys) = insert x (set ys)"
  by (induction ys) auto

lemma set_sort_desc: "set (sort_desc cs) = set cs"
  unfolding sort_desc_def by (induction cs) (auto simp: set_insert_desc)

lemma sort_desc_plain:
  "\<forall>x \<in> set cs. is_count (snd x) \<Longrightarrow>
     sort_desc cs = sort_key (\<lambda>e. - int (count_value (snd e))) cs"
proof (induction cs)
  case Nil
  then show ?case by (simp add: sort_desc_def)
next
  case (Cons x cs)
  have "sort_desc (x # cs) = insert_desc x (sort_desc cs)" by (simp add: sort_desc_def)
  also have "\<dots> = insort_key (\<lambda>e. - int (count_value (snd e))) x (sort_desc cs)"
    using Cons.prems by (intro insert_desc_plain) (simp_all add: set_sort_desc)
  finally show ?case using Cons by simp
qed

lemma sort_desc_hd:
  assumes "cs \<noteq> []" "\<forall>x \<in> set cs. is_count (snd x)"
  shows "hd (sort_desc cs) \<in> set cs
         \<and> (\<forall>x \<in> set cs. count_value (snd x) \<le> count_value (snd (hd (sort_desc cs))))"
proof -
  let ?f = "\<lambda>e :: string \<times> tally_value. - int (count_value (snd e))"
  let ?ys = "sort_key ?f cs"
  have ne: "?ys \<noteq> []" using assms(1) by (metis length_sort list.size(3) length_0_conv)
  have st: "set ?ys = set cs" by simp
  have so: "sorted (map ?f ?ys)" by (rule sorted_sort_key)
  obtain y ys where ys: "?ys = y # ys" using ne by (cases ?ys) auto
  have "\<forall>x \<in> set ?ys. ?f y \<le> ?f x" using so unfolding ys by auto
  then have "\<forall>x \<in> set cs. count_value (snd x) \<le> count_value (snd y)" using st by auto
  moreover have "y \<in> set cs" using st ys by (metis list.set_intros(1))
  ultimately show ?thesis by (simp add: sort_desc_plain[OF assms(2)] ys)
qed

lemma updateEmotionalSummary_eq:
  "updateEmotionalSummary c =
     (if own_labels (messages c) = [] then c
      else c\<lparr>emotionalSummary := Some
             \<lparr>dominantEmotion = fst (hd (sort_desc (tally [] (own_labels (messages c))))),
              averageSentiment = mean (map weighted_polarity (counted_analyses (messages c))),
              emotionDistribution = tally [] (own_labels (messages c))\<rparr>\<rparr>)"
proof -
  have o: "tally [] (emotion_labels (messages c)) = tally [] (own_labels (messages c))"
    unfolding own_labels_def by (rule tally_own)
  have "fst ` set (tally [] (own_labels (messages c))) = set (own_labels (messages c))"
    by (auto simp: tally_keys own_labels_def)
  then have k: "tally [] (own_labels (messages c)) = [] \<longleftrightarrow> own_labels (messages c) = []"
    by (metis empty_set image_is_empty set_empty2)
  show ?thesis
    by (simp add: updateEmotionalSummary_def summary_fold o k mean_def sum_doubles_def)
qed

lemma dominant_maximal:
  assumes "ls \<noteq> []" "\<forall>e \<in> set ls. e \<notin> set object_prototype_keys"
  defines "d \<equiv> fst (hd (sort_desc (tally [] ls)))"
  shows "d \<in> set ls \<and> (\<forall>e. count_list ls e \<le> count_list ls d)"
proof -
  let ?cs = "tally [] ls"
  have dist: "distinct (map fst ?cs)" by (simp add: tally_distinct)
  have keys: "fst ` set ?cs = set ls"
    using assms(2) by (auto simp: tally_keys object_prototype_keys_def)
  have ne: "?cs \<noteq> []" using keys assms(1) by auto
  have tp: "(\<forall>x \<in> set ?cs. is_count (snd x))
         \<and> (\<forall>e. obj_get ?cs e = (if e \<in> set ls then Some (Count (count_list ls e)) else None))"
    using tally_plain[of "[]" ls] assms(2) by (simp add: count_of_def)
  then have plain: "\<forall>x \<in> set ?cs. is_count (snd x)"
    and get: "\<And>e. obj_get ?cs e = (if e \<in> set ls then Some (Count (count_list ls e)) else None)"
    by blast+
  have val: "count_value (snd x) = count_list ls (fst x)" if "x \<in> set ?cs" for x
  proof -
    obtain k v where x: "x = (k, v)" by (cases x)
    have "obj_get ?cs k = Some v" using that dist x by (simp add: obj_get_Some_iff)
    then have "v = Count (count_list ls k)" using get[of k] by (auto split: if_splits)
    then show ?thesis by (simp add: x count_value_def)
  qed
  from sort_desc_hd[OF ne plain]
  have mem: "hd (sort_desc ?cs) \<in> set ?cs"
    and mx: "\<forall>x \<in> set ?cs. count_value (snd x)
               \<le> count_value (snd (hd (sort_desc ?cs)))"
    by blast+
  have din: "d \<in> set ls" using mem keys unfolding d_def by (metis image_eqI)
  have "count_list ls e \<le> count_list ls d" for e
  proof (cases "e \<in> set ls")
    case True
    then have "obj_get ?cs e = Some (Count (count_list ls e))" by (simp add: get)
    then have in_cs: "(e, Count (count_list ls e)) \<in> set ?cs" using dist by (simp add: obj_get_Some_iff)
    from mx in_cs have "count_value (snd (e, Count (count_list ls e)))
            \<le> count_value (snd (hd (sort_desc ?cs)))" by fastforce
    then show ?thesis using val[OF mem] by (simp add: count_value_def d_def)
  next
    case False
    then show ?thesis by (simp add: count_list_0_iff)
  qed
  then show ?thesis using din by simp
qed

lemma scenario_counts:
  assumes m: "mset ls = {#''happy'', ''happy'', ''sad''#}"
  shows "count_list ls ''happy'' = 2" "count_list ls ''sad'' = 1" "set ls = {''happy'', ''sad''}"
proof -
  have cl: "count_list ls e = count {#''happy'', ''happy'', ''sad''#} e" for e
    using m by (metis count_mset)
  show "count_list ls ''happy'' = 2" by (simp add: cl)
  show "count_list ls ''sad'' = 1" by (simp add: cl)
  have "set ls = set_mset (mset ls)" by simp
  also have "\<dots> = {''happy'', ''sad''}" unfolding m by simp
  finally show "set ls = {''happy'', ''sad''}" .
qed

lemma scenario_tally:
  assumes m: "mset ls = {#''happy'', ''happy'', ''sad''#}"
  shows "fst (hd (sort_desc (tally [] ls))) = ''happy''"
    and "set (tally [] ls) = {(''happy'', Count 2), (''sad'', Count 1)}"
    and "filter (\<lambda>e. e \<noteq> ''__proto__'') ls = ls"
proof -
  have c1: "count_list ls ''happy'' = 2" and c2: "count_list ls ''sad'' = 1"
    and st: "set ls = {''happy'', ''sad''}"
    using scenario_counts[OF m] by blast+
  have pl: "\<forall>e \<in> set ls. e \<notin> set object_prototype_keys"
    unfolding st by (simp add: object_prototype_keys_def prototype_functions_def)
  show "filter (\<lambda>e. e \<noteq> ''__proto__'') ls = ls"
    unfolding filter_id_conv st by simp
  let ?cs = "tally [] ls"
  let ?d = "fst (hd (sort_desc ?cs))"
  have dist: "distinct (map fst ?cs)" by (simp add: tally_distinct)
  have ne: "ls \<noteq> []" using c1 by auto
  have mem: "(k, v) \<in> set ?cs \<longleftrightarrow> obj_get ?cs k = Some v" for k v
    using dist by (simp add: obj_get_Some_iff)
  have get0: "obj_get ?cs k = (if k \<in> set ls then Some (Count (count_list ls k)) else None)" for k
    using tally_plain[of "[]" ls] pl by (simp add: count_of_def)
  have h: "obj_get ?cs ''happy'' = Some (Count 2)" using get0[of "''happy''"] c1 st by simp
  have s: "obj_get ?cs ''sad'' = Some (Count 1)" using get0[of "''sad''"] c2 st by simp
  have o: "obj_get ?cs k = None" if "k \<noteq> ''happy''" "k \<noteq> ''sad''" for k
    using get0[of k] that st by simp
  have "x \<in> set ?cs \<longleftrightarrow> x \<in> {(''happy'', Count 2), (''sad'', Count 1)}" for x
  proof -
    obtain k v where x: "x = (k, v)" by (cases x)
    consider "k = ''happy''" | "k = ''sad''" | "k \<noteq> ''happy''" "k \<noteq> ''sad''" by blast
    then show ?thesis
    proof cases
      case 1
      then show ?thesis unfolding x mem using h by auto
    next
      case 2
      then show ?thesis unfolding x mem using s by auto
    next
      case 3
      then show ?thesis unfolding x mem using o[OF 3] by auto
    qed
  qed
  then show "set ?cs = {(''happy'', Count 2), (''sad'', Count 1)}" by blast
  from dominant_maximal[OF ne pl] have d: "?d \<in> set ls" and mx: "count_list ls ''happy'' \<le> count_list ls ?d"
    by blast+
  from d st have "?d = ''happy'' \<or> ?d = ''sad''" by blast
  then show "?d = ''happy''"
  proof
    assume "?d = ''sad''"
    with mx c1 c2 show ?thesis by simp
  qed simp
qed

text \<open>
  C2, as amended. When the primary emotions of the messages that carry an emotion analysis
  are happy, happy and sad, in any order (and whatever other messages lie between them),
  the recomputed summary has the dominant emotion happy and the distribution happy: 2,
  sad: 1. In general, when no primary emotion is the name of a function of
  \<^verbatim>\<open>Object.prototype\<close>, the labels \<^verbatim>\<open>__proto__\<close> are not counted; when a label is left,
  the summary is set, its dominant emotion is one of the labels left and none of them
  occurs more often, and the distribution gives each of them its number of occurrences
  and has no other key.
\<close>

theorem dominant_emotion:
  "(mset (emotion_labels (messages c)) = {#''happy'', ''happy'', ''sad''#} \<longrightarrow>
      (\<exists>sm. emotionalSummary (updateEmotionalSummary c) = Some sm
         \<and> dominantEmotion sm = ''happy''
         \<and> set (emotionDistribution sm) = {(''happy'', Count 2), (''sad'', Count 1)}
         \<and> distinct (map fst (emotionDistribution sm))))
   \<and> (own_labels (messages c) \<noteq> []
       \<and> (\<forall>e \<in> set (emotion_labels (messages c)). e \<notin> set prototype_functions) \<longrightarrow>
      (\<exists>sm. emotionalSummary (updateEmotionalSummary c) = Some sm
         \<and> dominantEmotion sm \<in> set (own_labels (messages c))
         \<and> (\<forall>e. count_list (own_labels (messages c)) e
                 \<le> count_list (own_labels (messages c)) (dominantEmotion sm))
         \<and> (\<forall>e. obj_get (emotionDistribution sm) e =
                 (if e \<in> set (own_labels (messages c))
                  then Some (Count (count_list (own_labels (messages c)) e)) else None))))"
proof (intro conjI impI)
  let ?ls = "own_labels (messages c)"
  let ?sm = "\<lparr>dominantEmotion = fst (hd (sort_desc (tally [] ?ls))),
              averageSentiment = mean (map weighted_polarity (counted_analyses (messages c))),
              emotionDistribution = tally [] ?ls\<rparr>"
  {
    assume m0: "mset (emotion_labels (messages c)) = {#''happy'', ''happy'', ''sad''#}"
    have own: "?ls = emotion_labels (messages c)"
      unfolding own_labels_def by (rule scenario_tally(3)[OF m0])
    have m: "mset ?ls = {#''happy'', ''happy'', ''sad''#}" using m0 own by simp
    then have ne: "?ls \<noteq> []" by auto
    have 1: "emotionalSummary (updateEmotionalSummary c) = Some ?sm"
      using ne by (simp add: updateEmotionalSummary_eq)
    have 2: "dominantEmotion ?sm = ''happy''" using scenario_tally(1)[OF m] by simp
    have 3: "set (emotionDistribution ?sm) = {(''happy'', Count 2), (''sad'', Count 1)}"
      using scenario_tally(2)[OF m] by simp
    have 4: "distinct (map fst (emotionDistribution ?sm))" by (simp add: tally_distinct)
    from 1 2 3 4 show "\<exists>sm. emotionalSummary (updateEmotionalSummary c) = Some sm
         \<and> dominantEmotion sm = ''happy''
         \<and> set (emotionDistribution sm) = {(''happy'', Count 2), (''sad'', Count 1)}
         \<and> distinct (map fst (emotionDistribution sm))" by blast
  }
  {
    assume a: "?ls \<noteq> [] \<and> (\<forall>e \<in> set (emotion_labels (messages c)). e \<notin> set prototype_functions)"
    then have ne: "?ls \<noteq> []" by blast
    have pl: "\<forall>e \<in> set ?ls. e \<notin> set object_prototype_keys"
      using a by (auto simp: own_labels_def object_prototype_keys_def)
    have 1: "emotionalSummary (updateEmotionalSummary c) = Some ?sm"
      using ne by (simp add: updateEmotionalSummary_eq)
    have 2: "dominantEmotion ?sm \<in> set ?ls
       \<and> (\<forall>e. count_list ?ls e \<le> count_list ?ls (dominantEmotion ?sm))"
      using dominant_maximal[OF ne pl] by simp
    have 3: "\<forall>e. obj_get (emotionDistribution ?sm) e =
                 (if e \<in> set ?ls then Some (Count (count_list ?ls e)) else None)"
      using tally_plain[of "[]" ?ls] pl by (simp add: count_of_def)
    from 1 2 3 show "\<exists>sm. emotionalSummary (updateEmotionalSummary c) = Some sm
         \<and> dominantEmotion sm \<in> set ?ls
         \<and> (\<forall>e. count_list ?ls e \<le> count_list ?ls (dominantEmotion sm))
         \<and> (\<forall>e. obj_get (emotionDistribution sm) e =
                 (if e \<in> set ?ls then Some (Count (count_list ?ls e)) else None))" by blast
  }
qed

theorem dominant_emotion_witness:
  "mset (emotion_labels (messages example_three_emotions)) = {#''happy'', ''happy'', ''sad''#}
   \<and> own_labels (messages example_three_emotions) = [''sad'', ''happy'', ''happy'']
   \<and> (\<exists>sm. emotionalSummary (updateEmotionalSummary example_three_emotions) = Some sm
         \<and> dominantEmotion sm = ''happy''
         \<and> set (emotionDistribution sm) = {(''happy'', Count 2), (''sad'', Count 1)}
         \<and> obj_get (emotionDistribution sm) ''sad'' = Some (Count 1))"
proof -
  have l: "emotion_labels (messages example_three_emotions) = [''sad'', ''happy'', ''happy'']"
    by (simp add: example_three_emotions_def example_defs emotion_labels_def)
  have o: "own_labels (messages example_three_emotions) = [''sad'', ''happy'', ''happy'']"
    by (simp add: own_labels_def l)
  have h1: "mset (emotion_labels (messages example_three_emotions)) = {#''happy'', ''happy'', ''sad''#}"
    unfolding l by (simp add: add_mset_commute)
  have h2: "own_labels (messages example_three_emotions) \<noteq> []
       \<and> (\<forall>e \<in> set (emotion_labels (messages example_three_emotions)). e \<notin> set prototype_functions)"
    unfolding l o by (simp add: prototype_functions_def)
  from dominant_emotion[of example_three_emotions] h1
  obtain sm where sm: "emotionalSummary (updateEmotionalSummary example_three_emotions) = Some sm"
    "dominantEmotion sm = ''happy''"
    "set (emotionDistribution sm) = {(''happy'', Count 2), (''sad'', Count 1)}"
    by blast
  from dominant_emotion[of example_three_emotions] h2
  obtain sm' where sm': "emotionalSummary (updateEmotionalSummary example_three_emotions) = Some sm'"
    "\<forall>e. obj_get (emotionDistribution sm') e =
           (if e \<in> set (own_labels (messages example_three_emotions))
            then Some (Count (count_list (own_labels (messages example_three_emotions)) e)) else None)"
    by blast
  have "sm' = sm" using sm(1) sm'(1) by simp
  then have "obj_get (emotionDistribution sm) ''sad'' = Some (Count 1)"
    using sm'(2) by (simp add: o)
  with sm h1 o show ?thesis by blast
qed

text \<open>
  The statement of C2 as the specification words it fails on a label that names a property
  of \<^verbatim>\<open>Object.prototype\<close>. With the labels constructor, happy, happy the count of
  constructor is the text of the inherited function followed by 1, no number, so the
  comparator of the sort is NaN and the first key stays first: the dominant emotion is
  constructor, which occurs once, where happy occurs twice. With the labels
  \<^verbatim>\<open>__proto__\<close>, \<^verbatim>\<open>__proto__\<close>, happy the dominant emotion is happy, which occurs once.
\<close>

theorem dominant_emotion_inherited_counterexample:
  "emotion_labels (messages example_constructor_label) = [''constructor'', ''happy'', ''happy'']
   \<and> map_option dominantEmotion
        (emotionalSummary (updateEmotionalSummary example_constructor_label)) = Some ''constructor''
   \<and> map_option emotionDistribution
        (emotionalSummary (updateEmotionalSummary example_constructor_label))
       = Some [(''constructor'', Text [] ''constructor'' [Decimal 1]), (''happy'', Count 2)]
   \<and> emotion_labels (messages example_proto_labels) = [''__proto__'', ''__proto__'', ''happy'']
   \<and> map_option dominantEmotion
        (emotionalSummary (updateEmotionalSummary example_proto_labels)) = Some ''happy''
   \<and> map_option emotionDistribution
        (emotionalSummary (updateEmotionalSummary example_proto_labels))
       = Some [(''happy'', Count 1)]"
  by (simp add: example_constructor_label_def example_proto_labels_def example_defs summary_defs
      truthy_values)

section \<open>The average sentiment\<close>

text \<open>
  C3, as amended. When some message carries an emotion analysis with a primary emotion
  other than \<^verbatim>\<open>__proto__\<close>, the summary is recomputed and its average sentiment is the
  mean, as doubles compute it, of polarity times confidence over the analysis payloads
  whose sentiment confidence is truthy (+1 for positive, -1 for negative, 0 for any other
  label), and 0 when there is no such payload; payloads (positive, 0.8) and
  (negative, 0.4) give 0.2. When no message carries such an emotion analysis the
  conversation, its summary included, is left as it was.
\<close>

theorem averageSentiment_counted:
  "(own_labels (messages c) \<noteq> [] \<longrightarrow>
      (\<exists>sm. emotionalSummary (updateEmotionalSummary c) = Some sm
         \<and> averageSentiment sm = mean (map weighted_polarity (counted_analyses (messages c)))
         \<and> (counted_analyses (messages c) = [] \<longrightarrow> averageSentiment sm = 0)
         \<and> (map (\<lambda>r. (sentiment r, sentiment_confidence r)) (analyses (messages c))
               = [(''positive'', decimal 8 10), (''negative'', decimal 4 10)]
             \<longrightarrow> averageSentiment sm = decimal 2 10)))
   \<and> (own_labels (messages c) = [] \<longrightarrow> updateEmotionalSummary c = c)"
proof (intro conjI impI)
  let ?ls = "own_labels (messages c)"
  let ?avg = "mean (map weighted_polarity (counted_analyses (messages c)))"
  let ?sm = "\<lparr>dominantEmotion = fst (hd (sort_desc (tally [] ?ls))),
              averageSentiment = ?avg,
              emotionDistribution = tally [] ?ls\<rparr>"
  show "updateEmotionalSummary c = c" if "?ls = []"
    using that by (simp add: updateEmotionalSummary_eq)
  {
    assume ne: "?ls \<noteq> []"
    have 1: "emotionalSummary (updateEmotionalSummary c) = Some ?sm"
      using ne by (simp add: updateEmotionalSummary_eq)
    have 2: "?avg = 0" if "counted_analyses (messages c) = []"
      using that by (simp add: mean_def)
    have 3: "?avg = decimal 2 10"
      if a: "map (\<lambda>r. (sentiment r, sentiment_confidence r)) (analyses (messages c))
               = [(''positive'', decimal 8 10), (''negative'', decimal 4 10)]"
    proof -
      from a obtain r1 r2 where rs: "analyses (messages c) = [r1, r2]"
        and r1: "sentiment r1 = ''positive''" "sentiment_confidence r1 = decimal 8 10"
        and r2: "sentiment r2 = ''negative''" "sentiment_confidence r2 = decimal 4 10"
        by (auto simp: map_eq_Cons_conv)
      have "counted_analyses (messages c) = [r1, r2]"
        by (simp add: counted_analyses_def rs r1 r2 truthy_values)
      then show ?thesis
        using scenario_average
        by (simp add: r1 r2 mean_def sum_doubles_def weighted_polarity_def sentimentValue_def
            numeral_2_eq_2)
    qed
    from 1 2 3 show "\<exists>sm. emotionalSummary (updateEmotionalSummary c) = Some sm
         \<and> averageSentiment sm = ?avg
         \<and> (counted_analyses (messages c) = [] \<longrightarrow> averageSentiment sm = 0)
         \<and> (map (\<lambda>r. (sentiment r, sentiment_confidence r)) (analyses (messages c))
               = [(''positive'', decimal 8 10), (''negative'', decimal 4 10)]
             \<longrightarrow> averageSentiment sm = decimal 2 10)"
      by force
  }
qed

theorem averageSentiment_counted_witness:
  "own_labels (messages example_two_sentiments) = [''happy'']
   \<and> map (\<lambda>r. (sentiment r, sentiment_confidence r)) (analyses (messages example_two_sentiments))
         = [(''positive'', decimal 8 10), (''negative'', decimal 4 10)]
   \<and> (\<exists>sm. emotionalSummary (updateEmotionalSummary example_two_sentiments) = Some sm
          \<and> averageSentiment sm = decimal 2 10)
   \<and> decimal 2 10 = Finite 7205759403792794 (- 55)
   \<and> own_labels (messages (example_conversation ''c1''
          [example_message ''m1'' (Some (example_result ''positive'' (decimal 8 10) None))] 0 None)) = []
   \<and> emotionalSummary (updateEmotionalSummary (example_conversation ''c1''
          [example_message ''m1'' (Some (example_result ''positive'' (decimal 8 10) None))] 0 None)) = None"
proof -
  let ?c = "example_conversation ''c1''
          [example_message ''m1'' (Some (example_result ''positive'' (decimal 8 10) None))] 0 None"
  have h1: "own_labels (messages example_two_sentiments) = [''happy'']"
    by (simp add: example_two_sentiments_def example_defs emotion_labels_def own_labels_def)
  have h2: "map (\<lambda>r. (sentiment r, sentiment_confidence r)) (analyses (messages example_two_sentiments))
         = [(''positive'', decimal 8 10), (''negative'', decimal 4 10)]"
    by (simp add: example_two_sentiments_def example_defs analyses_def)
  have h3: "own_labels (messages ?c) = []"
    by (simp add: example_defs emotion_labels_def own_labels_def)
  have e: "emotionalSummary ?c = None"
    by (simp add: example_defs)
  have h1': "own_labels (messages example_two_sentiments) \<noteq> []" using h1 by simp
  from averageSentiment_counted[of example_two_sentiments] h1' h2
  have a: "\<exists>sm. emotionalSummary (updateEmotionalSummary example_two_sentiments) = Some sm
          \<and> averageSentiment sm = decimal 2 10" by blast
  from averageSentiment_counted[of ?c] h3 e have b: "emotionalSummary (updateEmotionalSummary ?c) = None" by simp
  from h1 h2 h3 a b decimal_values(3) show ?thesis by blast
qed

text \<open>
  The statement of C3 as the specification words it fails on a payload of confidence 0:
  the message carries a sentiment analysis but does not count in the mean. With
  (positive, 0.8) and (neutral, 0) the summary has 0.8 where the specified mean is 0.4.
\<close>

theorem averageSentiment_specified_counterexample:
  "map_option averageSentiment (emotionalSummary (updateEmotionalSummary example_zero_confidence))
     = Some (decimal 8 10)
   \<and> specified_averageSentiment (messages example_zero_confidence) = decimal 4 10
   \<and> map_option averageSentiment (emotionalSummary (updateEmotionalSummary example_zero_confidence))
     \<noteq> Some (specified_averageSentiment (messages example_zero_confidence))"
proof -
  have a: "map_option averageSentiment
             (emotionalSummary (updateEmotionalSummary example_zero_confidence))
           = Some (decimal 8 10)"
    using zero_confidence_averages(1)
    by (simp add: example_zero_confidence_def example_defs summary_defs truthy_values)
  have b: "specified_averageSentiment (messages example_zero_confidence) = decimal 4 10"
    using zero_confidence_averages(2)
    by (simp add: example_zero_confidence_def example_defs summary_defs numeral_2_eq_2)
  have c: "decimal 8 10 \<noteq> decimal 4 10" by (simp add: decimal_values)
  show ?thesis unfolding a b using c by simp
qed

section \<open>When a conversation has a summary\<close>

lemma carries_iff_labels:
  "(\<exists>msg \<in> set msgs. carries_own_emotion msg) \<longleftrightarrow> own_labels msgs \<noteq> []"
  by (induction msgs)
    (auto simp: carries_own_emotion_def emotion_labels_def own_labels_def split: option.splits)

lemma summary_matches_update:
  "summary_matches c \<Longrightarrow> summary_matches (updateEmotionalSummary c)"
  by (auto simp: summary_matches_def updateEmotionalSummary_eq carries_iff_labels)

lemma summary_matches_recomputed:
  "own_labels (messages c) \<noteq> [] \<Longrightarrow> summary_matches (updateEmotionalSummary c)"
  by (auto simp: summary_matches_def updateEmotionalSummary_eq carries_iff_labels)

lemma summary_matches_push:
  assumes "summary_matches c"
  shows "summary_matches (push_message m nm t2 c)"
proof -
  let ?c1 = "c\<lparr>messages := messages c @ [nm], updatedAt := Instant t2\<rparr>"
  let ?c2 = "(if length (messages ?c1) = 1 \<and> nm_type m = User
                then ?c1\<lparr>title := generateTitle (nm_content m)\<rparr> else ?c1)"
  have p: "push_message m nm t2 c = updateEmotionalSummary ?c2"
    by (simp add: push_message_def Let_def)
  have m2: "messages ?c2 = messages c @ [nm]" and e2: "emotionalSummary ?c2 = emotionalSummary c"
    by simp_all
  show ?thesis
  proof (cases "own_labels (messages ?c2) = []")
    case True
    then have none: "\<not> (\<exists>msg \<in> set (messages c @ [nm]). carries_own_emotion msg)"
      using carries_iff_labels[of "messages ?c2"] m2 by simp
    then have "emotionalSummary c = None" using assms by (auto simp: summary_matches_def)
    then have "summary_matches ?c2" using none m2 e2 unfolding summary_matches_def by metis
    then show ?thesis unfolding p by (rule summary_matches_update)
  next
    case False
    then show ?thesis unfolding p by (rule summary_matches_recomputed)
  qed
qed

lemma update_first_Ball:
  "\<forall>x \<in> set xs. Q x \<Longrightarrow> (\<And>x. x \<in> set xs \<Longrightarrow> Q x \<Longrightarrow> Q (f x))
     \<Longrightarrow> \<forall>x \<in> set (update_first P f xs). Q x"
  by (induction xs) auto

lemma findIndex_Some: "findIndex P xs = Some k \<Longrightarrow> k < length xs \<and> P (xs ! k)"
  by (induction xs arbitrary: k) (auto split: if_splits)

lemma merge_keeps_carries:
  "u_processingResult u = None \<Longrightarrow> carries_own_emotion (merge_message msg u) = carries_own_emotion msg"
  by (simp add: merge_message_def carries_own_emotion_def)

lemma summary_matches_merge:
  assumes "summary_matches c" "u_processingResult u = None" "k < length (messages c)"
  shows "summary_matches (c\<lparr>messages := (messages c)[k := merge_message (messages c ! k) u],
                            updatedAt := d\<rparr>)"
proof -
  have "map carries_own_emotion ((messages c)[k := merge_message (messages c ! k) u])
          = map carries_own_emotion (messages c)"
    using assms(2,3) by (simp add: map_update merge_keeps_carries list_update_same_conv)
  then have "(\<exists>msg \<in> set ((messages c)[k := merge_message (messages c ! k) u]). carries_own_emotion msg)
          = (\<exists>msg \<in> set (messages c). carries_own_emotion msg)"
    by (metis (no_types, lifting) image_iff list.set_map)
  then show ?thesis using assms(1) by (simp add: summary_matches_def)
qed

lemma apply_op_summaries_match:
  assumes "summaries_match s" "keeps_analyses op"
  shows "summaries_match (apply_op s op)"
proof (cases op)
  case (CreateConversation ttl newId localeDate t1 t2)
  then show ?thesis using assms
    by (auto simp: summaries_match_def createConversation_def Let_def summary_matches_def)
next
  case (SetCurrentConversation i)
  then show ?thesis using assms by (simp add: summaries_match_def setCurrentConversation_def)
next
  case (AddMessage newId t1 t2 m)
  show ?thesis
  proof (cases "getCurrentConversation s")
    case None
    then show ?thesis using assms AddMessage by (simp add: addMessage_def)
  next
    case (Some c)
    show ?thesis
      using assms(1) unfolding AddMessage summaries_match_def apply_op.simps
        addMessage_conversations[OF Some]
      by (rule update_first_Ball) (simp add: summary_matches_push)
  qed
next
  case (UpdateMessage messageId updates t)
  then have keep: "u_processingResult updates = None" using assms(2) by simp
  show ?thesis
  proof (cases "getCurrentConversation s")
    case None
    then show ?thesis using assms UpdateMessage by (simp add: updateMessage_def)
  next
    case (Some c)
    from getCurrent_Some_id[OF Some] have cin: "c \<in> set (conversations s)"
      by (auto dest: find_Some_P)
    then have mc: "summary_matches c" using assms(1) by (simp add: summaries_match_def)
    show ?thesis
    proof (cases "findIndex (\<lambda>m. msg_id m = messageId) (messages c)")
      case None
      then show ?thesis using assms Some UpdateMessage by (simp add: updateMessage_def)
    next
      case (Some k)
      then have k: "k < length (messages c)" using findIndex_Some by fastforce
      let ?c1 = "c\<lparr>messages := (messages c)[k := merge_message (messages c ! k) updates],
                      updatedAt := Instant t\<rparr>"
      have m1: "summary_matches ?c1" by (rule summary_matches_merge[OF mc keep k])
      have "\<forall>x \<in> set (update_first (\<lambda>x. conv_id x = conv_id ?c1) (\<lambda>_. ?c1) (conversations s)).
               summary_matches x"
        using assms(1) unfolding summaries_match_def
        by (rule update_first_Ball) (simp add: m1)
      then show ?thesis
        using \<open>getCurrentConversation s = Some c\<close> Some UpdateMessage
        by (simp add: updateMessage_def summaries_match_def store_current_def Let_def)
    qed
  qed
next
  case (DeleteConversation i)
  then show ?thesis using assms by (simp add: summaries_match_def deleteConversation_def)
qed

lemma run_ops_summaries_match:
  "summaries_match s \<Longrightarrow> \<forall>op \<in> set ops. keeps_analyses op \<Longrightarrow> summaries_match (run_ops s ops)"
  unfolding run_ops_def
  by (induction ops arbitrary: s) (auto simp: apply_op_summaries_match)

text \<open>
  C7, as amended. A new manager on an empty store has a summary exactly on the
  conversations of which a message carries an emotion analysis with a primary emotion
  other than \<^verbatim>\<open>__proto__\<close> (it has none). From a state with this property, after any
  sequence of operations in which no \<open>updateMessage\<close> has the key \<open>processingResult\<close>
  among its updates, every conversation has a summary if and only if one of its messages
  carries an emotion analysis with a primary emotion other than \<^verbatim>\<open>__proto__\<close>; so the
  summary of a conversation without emotion data is unset, whatever sentiment its
  messages carry.
\<close>

theorem summary_set_iff_emotion:
  "summaries_match (new_manager empty_storage)
   \<and> (summaries_match s \<and> (\<forall>op \<in> set ops. keeps_analyses op) \<longrightarrow>
        (\<forall>conv \<in> set (conversations (run_ops s ops)).
           (emotionalSummary conv \<noteq> None) = (\<exists>msg \<in> set (messages conv). carries_own_emotion msg)))"
proof -
  have "summaries_match (new_manager empty_storage)"
    by (simp add: new_manager_def loadConversations_def empty_storage_def summaries_match_def)
  moreover have "\<forall>conv \<in> set (conversations (run_ops s ops)).
           (emotionalSummary conv \<noteq> None) = (\<exists>msg \<in> set (messages conv). carries_own_emotion msg)"
    if "summaries_match s" "\<forall>op \<in> set ops. keeps_analyses op"
    using run_ops_summaries_match[OF that] by (simp add: summaries_match_def summary_matches_def)
  ultimately show ?thesis by blast
qed

theorem summary_set_iff_emotion_witness:
  "summaries_match (new_manager empty_storage)
   \<and> conversations example_sentiment_only \<noteq> []
   \<and> ((emotionalSummary (hd (conversations example_sentiment_only)) \<noteq> None)
        = (\<exists>msg \<in> set (messages (hd (conversations example_sentiment_only))). carries_own_emotion msg))
   \<and> map (map_option sentiment_confidence \<circ> processingResult)
         (messages (hd (conversations example_sentiment_only))) = [Some (decimal 8 10)]
   \<and> emotionalSummary (hd (conversations example_sentiment_only)) = None"
proof -
  let ?ops = "[CreateConversation None ''c1'' ''11/3/2026'' 0 0,
        AddMessage ''m1'' 1 2
          (example_new_message User ''hello'' (Some (example_result ''positive'' (decimal 8 10) None))),
        UpdateMessage ''m1'' (no_updates\<lparr>u_isTyping := Some (Some False)\<rparr>) 3]"
  have h: "\<forall>op \<in> set ?ops. keeps_analyses op"
    by (simp add: no_updates_def)
  have ne: "conversations example_sentiment_only \<noteq> []"
    and sent: "map (map_option sentiment_confidence \<circ> processingResult)
         (messages (hd (conversations example_sentiment_only))) = [Some (decimal 8 10)]"
    and no_emotion: "\<not> (\<exists>msg \<in> set (messages (hd (conversations example_sentiment_only))).
                        carries_own_emotion msg)"
    by (simp_all add: example_sentiment_only_def example_defs store_defs summary_defs
        carries_own_emotion_def)
  from summary_set_iff_emotion[of "new_manager empty_storage" ?ops] h
  have start: "summaries_match (new_manager empty_storage)"
    and all: "\<forall>conv \<in> set (conversations example_sentiment_only).
           (emotionalSummary conv \<noteq> None) = (\<exists>msg \<in> set (messages conv). carries_own_emotion msg)"
    unfolding example_sentiment_only_def by blast+
  have iff: "(emotionalSummary (hd (conversations example_sentiment_only)) \<noteq> None)
        = (\<exists>msg \<in> set (messages (hd (conversations example_sentiment_only))). carries_own_emotion msg)"
    using all ne by simp
  with no_emotion have "emotionalSummary (hd (conversations example_sentiment_only)) = None"
    by blast
  with start ne iff sent show ?thesis by blast
qed

text \<open>
  The statement of C7 as the specification words it fails on \<open>updateMessage\<close>, which
  does not recompute the summary: after a message without analysis is added and then
  updated with an analysis that has emotions, the conversation has a message that carries
  an emotion analysis and no summary.
\<close>

theorem summary_after_update_counterexample:
  "map emotionalSummary (conversations example_stale_summary) = [None]
   \<and> map (map carries_emotion \<circ> messages) (conversations example_stale_summary) = [[True]]
   \<and> \<not> summaries_match example_stale_summary"
  by (simp add: example_stale_summary_def example_defs store_defs summary_defs
      summaries_match_def summary_matches_def carries_emotion_def carries_own_emotion_def)

section \<open>Daily insights\<close>












section \<open>Metrics batching\<close>

text \<open>
  C9. In production mode, when the queue with the new measurement has at least
  \<open>batchSize\<close> = 10 entries, \<open>addMetric\<close> itself, with no timer event, takes the first 10
  entries off the queue and puts them in flight as one batch; when the queue reaches
  exactly 10 entries nothing is left in it.
\<close>

theorem addMetric_flushes_at_batchSize:
  "isProduction s \<and> batchSize \<le> length (metricsQueue s) + 1 \<longrightarrow>
     metricsQueue (addMetric name v dims now s)
       = drop batchSize (metricsQueue s @
           [\<lparr>metric_name = name, metric_value = v, dimensions = dims,
             metric_timestamp = Instant now\<rparr>])
     \<and> inFlight (addMetric name v dims now s)
       = inFlight s @ [take batchSize (metricsQueue s @
           [\<lparr>metric_name = name, metric_value = v, dimensions = dims,
             metric_timestamp = Instant now\<rparr>])]
     \<and> length (last (inFlight (addMetric name v dims now s))) = batchSize
     \<and> batchSize = 10
     \<and> (length (metricsQueue s) + 1 = batchSize \<longrightarrow>
          metricsQueue (addMetric name v dims now s) = [])"
  by (auto simp: addMetric_def flushMetrics_def Let_def batchSize_def)

theorem addMetric_flushes_at_batchSize_witness:
  "isProduction \<lparr>metricsQueue = replicate 9 example_metric, isProduction = True, inFlight = []\<rparr>
   \<and> batchSize \<le> length (metricsQueue
         \<lparr>metricsQueue = replicate 9 example_metric, isProduction = True, inFlight = []\<rparr>) + 1
   \<and> metricsQueue (addMetric ''PageView'' 1 None 5
         \<lparr>metricsQueue = replicate 9 example_metric, isProduction = True, inFlight = []\<rparr>) = []
   \<and> length (last (inFlight (addMetric ''PageView'' 1 None 5
         \<lparr>metricsQueue = replicate 9 example_metric, isProduction = True, inFlight = []\<rparr>))) = 10"
proof -
  let ?s = "\<lparr>metricsQueue = replicate 9 example_metric, isProduction = True, inFlight = []\<rparr>"
  have h: "isProduction ?s \<and> batchSize \<le> length (metricsQueue ?s) + 1"
    and e: "length (metricsQueue ?s) + 1 = batchSize"
    by (simp_all add: batchSize_def)
  from addMetric_flushes_at_batchSize[of ?s "''PageView''" 1 None 5] h e
  have "metricsQueue (addMetric ''PageView'' 1 None 5 ?s) = []
     \<and> length (last (inFlight (addMetric ''PageView'' 1 None 5 ?s))) = 10"
    by (simp add: batchSize_def)
  with h show ?thesis by blast
qed

section \<open>Dates survive the ISO text\<close>

subsection \<open>The calendar\<close>














subsection \<open>Decimal fields\<close>


















subsection \<open>Time of day\<close>


subsection \<open>Reading back what was written\<close>





section \<open>Saving and loading\<close>

















end
